theory Spec2Isabelle
  imports Complex_Main "HOL-Library.Log_Nat"
begin

section \<open>Numbers\<close>

text \<open>
  The C++ type \<^verbatim>\<open>int\<close> is read as a mathematical integer; the theorems on tick
  arithmetic keep every tick inside \<open>0 .. INT_MAX\<close>, where no 32-bit operation of the
  source wraps. Exceptions are values of type \<open>erro\<close>: the two that the conversions
  \<^verbatim>\<open>std::stoi\<close> and \<^verbatim>\<open>std::stod\<close> throw, and a division by zero.

  In the chart data, the parser and the tempo calculator a \<^verbatim>\<open>double\<close> is a value of the
  binary64 format: a real number (\<open>Finito\<close>), an infinity (\<open>Infinito\<close>, with \<open>True\<close> for
  the negative one) or \<open>NaN\<close>. The two zeros are one value; no operation modelled here
  tells them apart. Every operation rounds its exact result to the nearest number of
  the format, ties to the even significand (\<open>arred\<close>). In the game logic
  (section \<open>Gameplay engine\<close>) the times and positions, of types \<^verbatim>\<open>double\<close> and \<^verbatim>\<open>float\<close>,
  are real numbers, without rounding.
\<close>

definition INT_MAX :: int where
  "INT_MAX = 2147483647"

definition INT_MIN :: int where
  "INT_MIN = - 2147483648"

datatype erro = InvalidArgument | OutOfRange | DivisaoPorZero

datatype double = Finito real | Infinito bool | NaN

text \<open>
  Rounding to an integer, ties to even; the exponent \<open>lg x\<close> of a positive number,
  \<open>2 ^ lg x \<le> x < 2 ^ (lg x + 1)\<close>; the exponent of the last place of the 53-bit
  significand of \<open>x\<close>, not below that of the subnormal numbers; and the rounding to the
  nearest number of the format, without a bound on the exponent from above.
\<close>

definition rhe :: "real \<Rightarrow> int" where
  "rhe x = (let f = \<lfloor>x\<rfloor>; r = x - of_int f
            in if r < 1 / 2 then f else if 1 / 2 < r then f + 1
               else if even f then f else f + 1)"

definition lg :: "real \<Rightarrow> int" where
  "lg x = (if 1 \<le> x then bitlen \<lfloor>x\<rfloor> - 1 else - bitlen (\<lceil>1 / x\<rceil> - 1))"

definition expoente64 :: "real \<Rightarrow> int" where
  "expoente64 x = max (lg \<bar>x\<bar> - 52) (- 1074)"

definition arred :: "real \<Rightarrow> real" where
  "arred x = (if x = 0 then 0
              else of_int (rhe (x / 2 powi expoente64 x)) * 2 powi expoente64 x)"

text \<open>The same rounding to 53 bits with no bound on the exponent from below.\<close>

definition arred_livre :: "real \<Rightarrow> real" where
  "arred_livre x = (if x = 0 then 0
                    else of_int (rhe (x / 2 powi (lg \<bar>x\<bar> - 52))) * 2 powi (lg \<bar>x\<bar> - 52))"

text \<open>
  The result of an operation whose exact value is \<open>x\<close>: a rounded value of magnitude
  \<open>2 ^ 1024\<close> or more is an infinity.
\<close>

definition para_double :: "real \<Rightarrow> double" where
  "para_double x = (let r = arred x in if 2 ^ 1024 \<le> \<bar>r\<bar> then Infinito (r < 0) else Finito r)"

text \<open>
  The values of type \<open>double\<close> that the format has: the others are no value of the
  source.
\<close>

fun valido :: "double \<Rightarrow> bool" where
  "valido (Finito x) = (arred x = x \<and> \<bar>x\<bar> < 2 ^ 1024)"
| "valido (Infinito s) = True"
| "valido NaN = True"

text \<open>
  The addition \<^verbatim>\<open>+\<close> and the comparison \<^verbatim>\<open><=\<close> of two \<^verbatim>\<open>double\<close>. Adding zero returns the
  other operand, which for the numbers of the format is what rounding the exact sum
  gives (lemma \<open>soma64_arredonda\<close>). A comparison with \<open>NaN\<close> is false.
\<close>

fun soma64 :: "double \<Rightarrow> double \<Rightarrow> double" where
  "soma64 (Finito x) (Finito y) =
     (if x = 0 then Finito y else if y = 0 then Finito x else para_double (x + y))"
| "soma64 (Finito x) (Infinito s) = Infinito s"
| "soma64 (Infinito s) (Finito y) = Infinito s"
| "soma64 (Infinito s) (Infinito s') = (if s = s' then Infinito s else NaN)"
| "soma64 NaN d = NaN"
| "soma64 d NaN = NaN"

fun le64 :: "double \<Rightarrow> double \<Rightarrow> bool" where
  "le64 (Finito x) (Finito y) = (x \<le> y)"
| "le64 (Finito x) (Infinito s) = (\<not> s)"
| "le64 (Infinito s) (Finito y) = s"
| "le64 (Infinito s) (Infinito s') = (s \<or> \<not> s')"
| "le64 NaN d = False"
| "le64 d NaN = False"

section \<open>Chart data\<close>

record MudancaTempo =
  tick :: int
  valorBruto :: int

text \<open>
  The two functions of \<^verbatim>\<open>MudancaTempo\<close>. The conversion of an \<^verbatim>\<open>int\<close> to \<^verbatim>\<open>double\<close> is
  exact; each division rounds.
\<close>

definition obterBPM :: "MudancaTempo \<Rightarrow> real" where
  "obterBPM m = arred (real_of_int (valorBruto m) / 1000)"

definition obterMicrossegundosPorBatida :: "MudancaTempo \<Rightarrow> real" where
  "obterMicrossegundosPorBatida m =
     (let bpm = obterBPM m in if bpm \<le> 0 then 0 else arred (60000000 / bpm))"

record AssinaturaTempo =
  tickAssinatura :: int
  numerador :: int
  denominador :: int

record NotaChart =
  tickNota :: int
  traste :: int
  comprimento :: int

text \<open>
  \<^verbatim>\<open>std::map<int, T>\<close> is an association list whose keys are strictly ascending;
  the \<^verbatim>\<open>sf::String\<close> fields hold the bytes they were decoded from.
\<close>

record DadosChart =
  nome :: string
  artista :: string
  streamMusica :: string
  criadorChart :: string
  album :: string
  ano :: string
  genero :: string
  tipoMidia :: string
  offset :: double
  resolucao :: int
  dificuldade :: int
  inicioPreview :: double
  fimPreview :: double
  jogador2 :: string
  mudancasTempo :: "(int \<times> MudancaTempo) list"
  assinaturasTempo :: "(int \<times> AssinaturaTempo) list"
  notas :: "NotaChart list"

definition DadosChart_inicial :: DadosChart where
  "DadosChart_inicial =
     \<lparr> nome = [], artista = [], streamMusica = [], criadorChart = [], album = [],
       ano = [], genero = [], tipoMidia = [], offset = Finito 0, resolucao = 192,
       dificuldade = 0, inicioPreview = Finito 0, fimPreview = Finito 0, jogador2 = [],
       mudancasTempo = [], assinaturasTempo = [], notas = [] \<rparr>"

text \<open>\<^verbatim>\<open>std::map::emplace\<close>: a key already present keeps its element.\<close>

fun map_emplace :: "int \<Rightarrow> 'v \<Rightarrow> (int \<times> 'v) list \<Rightarrow> (int \<times> 'v) list" where
  "map_emplace k v [] = [(k, v)]"
| "map_emplace k v ((k', v') # r) =
     (if k < k' then (k, v) # (k', v') # r
      else if k = k' then (k', v') # r
      else (k', v') # map_emplace k v r)"

section \<open>Tempo calculator\<close>

record CalculadoraTempo =
  referenciaChart :: DadosChart
  mudancasTempoOrdenadas :: "MudancaTempo list"

text \<open>
  The constructor copies the map's elements in key order, sorts them by their tick and
  puts a 120 BPM event in front when the vector is empty or does not start at tick 0.
  The source's sort does not fix the order of events of equal tick; the sort here keeps
  their order. (The parser files every event under its own tick, so no two events of a
  parsed chart have the same tick.)
\<close>

definition CalculadoraTempo_init :: "DadosChart \<Rightarrow> CalculadoraTempo" where
  "CalculadoraTempo_init chart =
     (let ordenadas = sort_key tick (map snd (mudancasTempo chart))
      in \<lparr> referenciaChart = chart,
           mudancasTempoOrdenadas =
             (if ordenadas = [] \<or> tick (hd ordenadas) \<noteq> 0
              then \<lparr> tick = 0, valorBruto = 120000 \<rparr> # ordenadas
              else ordenadas) \<rparr>)"

text \<open>
  The division by the resolution is the one division of the source whose divisor can
  be zero; it is a fallible step here, so that reaching it with a zero divisor is a
  visible result.
\<close>

definition dividir :: "real \<Rightarrow> real \<Rightarrow> erro + real" where
  "dividir x y = (if y = 0 then Inl DivisaoPorZero else Inr (arred (x / y)))"

text \<open>
  The loop of \<^verbatim>\<open>ticksParaSegundos\<close> over the vector, as a recursion over the events
  from index \<open>i\<close> on, with the two locals \<^verbatim>\<open>tempoEmSegundos\<close> and \<^verbatim>\<open>tickAtual\<close>.
  Every \<^verbatim>\<open>break\<close> and the end of the loop return
  \<^verbatim>\<open>tempoEmSegundos + offset\<close>.

  The values inside the loop are finite and are kept as the real numbers they are,
  rounded at each of the four operations: a BPM value is zero or at least \<open>1 / 1000\<close>,
  so with 32-bit \<^verbatim>\<open>int\<close> fields the seconds per tick are at most \<open>60000\<close>, the seconds of
  a segment less than \<open>2 ^ 48\<close>, and no sum over the segments of a vector that fits
  in memory reaches \<open>2 ^ 1024\<close>. The offset is any \<^verbatim>\<open>double\<close> that the parser stored;
  the result is a \<open>double\<close>.
\<close>

fun ticksParaSegundos_laco ::
  "DadosChart \<Rightarrow> int \<Rightarrow> MudancaTempo list \<Rightarrow> real \<Rightarrow> int \<Rightarrow> erro + double" where
  "ticksParaSegundos_laco chart tickAlvo [] tempoEmSegundos tickAtual =
     Inr (soma64 (Finito tempoEmSegundos) (offset chart))"
| "ticksParaSegundos_laco chart tickAlvo (eventoTempoAtual # resto) tempoEmSegundos tickAtual =
     (let proximoTickTempo = (case resto of [] \<Rightarrow> INT_MAX | proximo # _ \<Rightarrow> tick proximo);
          tickFinalSegmento = min tickAlvo proximoTickTempo;
          ticksNoSegmento = tickFinalSegmento - tickAtual
      in if (if ticksNoSegmento \<le> 0 \<and> tickAlvo > 0 then tickAtual \<ge> tickAlvo
             else ticksNoSegmento < 0)
         then Inr (soma64 (Finito tempoEmSegundos) (offset chart))
         else
           let microssegundosPorBatida = obterMicrossegundosPorBatida eventoTempoAtual
           in if resolucao chart = 0 then Inr (soma64 (Finito tempoEmSegundos) (offset chart))
              else
                (case dividir microssegundosPorBatida (real_of_int (resolucao chart)) of
                   Inl e \<Rightarrow> Inl e
                 | Inr microssegundosPorTick \<Rightarrow>
                     let segundosPorTick = arred (microssegundosPorTick / 1000000);
                         duracaoSegmentoSegundos =
                           arred (real_of_int ticksNoSegmento * segundosPorTick);
                         tempoEmSegundos' = arred (tempoEmSegundos + duracaoSegmentoSegundos);
                         tickAtual' = tickFinalSegmento
                     in if tickAtual' \<ge> tickAlvo
                        then Inr (soma64 (Finito tempoEmSegundos') (offset chart))
                        else ticksParaSegundos_laco chart tickAlvo resto tempoEmSegundos' tickAtual'))"

definition ticksParaSegundos :: "CalculadoraTempo \<Rightarrow> int \<Rightarrow> erro + double" where
  "ticksParaSegundos calc tickAlvo =
     ticksParaSegundos_laco (referenciaChart calc) tickAlvo (mudancasTempoOrdenadas calc) 0 0"


subsection \<open>Auxiliary definitions for the tempo calculator\<close>

text \<open>
  Seconds per tick of one tempo segment, the seconds of \<open>n\<close> ticks of it, and the time
  that the loop has accumulated when it returns for a target tick, from the time
  \<open>tempo\<close> at the first event of the list: these functions only state what the loop
  computes; the loop itself is \<open>ticksParaSegundos_laco\<close>.
\<close>

definition segundosPorTick :: "DadosChart \<Rightarrow> MudancaTempo \<Rightarrow> real" where
  "segundosPorTick chart ev =
     arred (arred (obterMicrossegundosPorBatida ev / real_of_int (resolucao chart)) / 1000000)"

definition duracao :: "DadosChart \<Rightarrow> MudancaTempo \<Rightarrow> int \<Rightarrow> real" where
  "duracao chart ev n = arred (real_of_int n * segundosPorTick chart ev)"



definition chart_exemplo :: DadosChart where
  "chart_exemplo = DadosChart_inicial
     \<lparr> mudancasTempo := [(0, \<lparr> tick = 0, valorBruto = 120000 \<rparr>)] \<rparr>"

definition chart_sem_tick_zero :: DadosChart where
  "chart_sem_tick_zero = DadosChart_inicial
     \<lparr> offset := Finito (1 / 4),
       mudancasTempo := [(384, \<lparr> tick = 384, valorBruto = 150000 \<rparr>)] \<rparr>"

definition chart_resolucao_zero :: DadosChart where
  "chart_resolucao_zero = DadosChart_inicial
     \<lparr> offset := Finito (1 / 4), resolucao := 0,
       mudancasTempo := [(0, \<lparr> tick = 0, valorBruto = 120000 \<rparr>)] \<rparr>"


section \<open>Chart parser\<close>

subsection \<open>Characters and number conversion\<close>

text \<open>
  The characters \<^verbatim>\<open>find_first_not_of(" \t\r\n")\<close> skips, the class \<^verbatim>\<open>\s\<close> of the
  regular expressions (which is also \<^verbatim>\<open>isspace\<close> of the conversions), the class
  \<^verbatim>\<open>\d\<close>, and the characters \<^verbatim>\<open>.\<close> matches: all but the line terminators.
  The classes are those of the C locale and of the UTF-8 locales, for a file read
  byte by byte.
\<close>

definition is_trim :: "char \<Rightarrow> bool" where
  "is_trim c \<longleftrightarrow> c = CHR '' '' \<or> c = CHR 0x09 \<or> c = CHR 0x0D \<or> c = CHR 0x0A"

definition is_space :: "char \<Rightarrow> bool" where
  "is_space c \<longleftrightarrow> c = CHR '' '' \<or> c = CHR 0x09 \<or> c = CHR 0x0A \<or> c = CHR 0x0B
                  \<or> c = CHR 0x0C \<or> c = CHR 0x0D"

definition digito :: "char \<Rightarrow> int option" where
  "digito = map_of [(CHR ''0'', 0), (CHR ''1'', 1), (CHR ''2'', 2), (CHR ''3'', 3),
                    (CHR ''4'', 4), (CHR ''5'', 5), (CHR ''6'', 6), (CHR ''7'', 7),
                    (CHR ''8'', 8), (CHR ''9'', 9)]"

definition is_digit :: "char \<Rightarrow> bool" where
  "is_digit c \<longleftrightarrow> digito c \<noteq> None"

definition is_dot :: "char \<Rightarrow> bool" where
  "is_dot c \<longleftrightarrow> c \<noteq> CHR 0x0A \<and> c \<noteq> CHR 0x0D"

definition valor_digitos :: "string \<Rightarrow> int" where
  "valor_digitos ds = foldl (\<lambda>acc c. 10 * acc + (case digito c of Some d \<Rightarrow> d | None \<Rightarrow> 0)) 0 ds"

text \<open>
  \<^verbatim>\<open>std::stoi\<close>: leading white space, an optional sign, then decimal digits; the rest
  of the text is not looked at. No digit: \<^verbatim>\<open>std::invalid_argument\<close>. A number outside
  \<^verbatim>\<open>int\<close>: \<^verbatim>\<open>std::out_of_range\<close>.
\<close>

definition sem_sinal :: "string \<Rightarrow> string" where
  "sem_sinal r = (case r of [] \<Rightarrow> [] | c # cs \<Rightarrow> if c = CHR ''-'' \<or> c = CHR ''+'' then cs else r)"

definition negativo :: "string \<Rightarrow> bool" where
  "negativo r = (case r of [] \<Rightarrow> False | c # cs \<Rightarrow> c = CHR ''-'')"

definition stoi :: "string \<Rightarrow> erro + int" where
  "stoi s =
     (let r = dropWhile is_space s;
          ds = takeWhile is_digit (sem_sinal r)
      in if ds = [] then Inl InvalidArgument
         else
           let v = (if negativo r then - valor_digitos ds else valor_digitos ds)
           in if v < INT_MIN \<or> v > INT_MAX then Inl OutOfRange else Inr v)"

text \<open>
  \<^verbatim>\<open>std::stod\<close> calls \<^verbatim>\<open>strtod\<close>, which reads the decimal point of the C locale in
  force. \<^verbatim>\<open>main\<close> installs the locale of the environment
  (\<^verbatim>\<open>std::locale::global(std::locale(""))\<close>, which also sets the C locale), so the decimal
  point is a parameter, \<open>ponto\<close>: the bytes \<^verbatim>\<open>.\<close> in the C locale and in English ones,
  \<^verbatim>\<open>,\<close> in Portuguese or German ones.

  The conversion skips white space and an optional sign and then reads, in this order
  of preference: a hexadecimal number (\<^verbatim>\<open>0x\<close>, hexadecimal digits with an optional
  fraction, an optional binary exponent after \<^verbatim>\<open>p\<close>); a decimal number (digits with an
  optional fraction, an optional exponent after \<^verbatim>\<open>e\<close>); \<^verbatim>\<open>inf\<close> or \<^verbatim>\<open>nan\<close> in any case.
  The rest of the text is not looked at. No number: \<^verbatim>\<open>std::invalid_argument\<close>. The
  value of a number is its exact value rounded to the nearest \<^verbatim>\<open>double\<close>; when that is
  beyond the largest \<^verbatim>\<open>double\<close>, or is not exact and is below the smallest normal
  \<^verbatim>\<open>double\<close> (after rounding to 53 bits), \<^verbatim>\<open>strtod\<close> reports a range error and the
  conversion throws \<^verbatim>\<open>std::out_of_range\<close>. This is the behaviour of the GNU C and C++
  libraries.
\<close>

definition minuscula :: "char \<Rightarrow> char" where
  "minuscula c =
     (if c = CHR ''I'' then CHR ''i'' else if c = CHR ''N'' then CHR ''n''
      else if c = CHR ''F'' then CHR ''f'' else if c = CHR ''A'' then CHR ''a''
      else if c = CHR ''X'' then CHR ''x'' else c)"

definition digito_hex :: "char \<Rightarrow> int option" where
  "digito_hex c =
     (case digito c of
        Some d \<Rightarrow> Some d
      | None \<Rightarrow>
          map_of [(CHR ''a'', 10), (CHR ''b'', 11), (CHR ''c'', 12), (CHR ''d'', 13),
                  (CHR ''e'', 14), (CHR ''f'', 15), (CHR ''A'', 10), (CHR ''B'', 11),
                  (CHR ''C'', 12), (CHR ''D'', 13), (CHR ''E'', 14), (CHR ''F'', 15)] c)"

definition is_hex :: "char \<Rightarrow> bool" where
  "is_hex c \<longleftrightarrow> digito_hex c \<noteq> None"

definition valor_hex :: "string \<Rightarrow> int" where
  "valor_hex ds =
     foldl (\<lambda>acc c. 16 * acc + (case digito_hex c of Some d \<Rightarrow> d | None \<Rightarrow> 0)) 0 ds"

text \<open>The text after the decimal point, when \<open>r\<close> starts with it.\<close>

definition apos_ponto :: "string \<Rightarrow> string \<Rightarrow> string option" where
  "apos_ponto ponto r =
     (if ponto \<noteq> [] \<and> take (length ponto) r = ponto then Some (drop (length ponto) r)
      else None)"

text \<open>
  A number starts at \<open>r\<close>: a digit, or the decimal point and a digit. The digits before
  the point, the digits after it, and the text that follows them.
\<close>

definition comeca_numero :: "(char \<Rightarrow> bool) \<Rightarrow> string \<Rightarrow> string \<Rightarrow> bool" where
  "comeca_numero dig ponto r \<longleftrightarrow>
     (case r of [] \<Rightarrow> False | c # _ \<Rightarrow> dig c)
     \<or> (case apos_ponto ponto r of
           None \<Rightarrow> False
         | Some cs \<Rightarrow> (case cs of [] \<Rightarrow> False | d # _ \<Rightarrow> dig d))"

definition partes :: "(char \<Rightarrow> bool) \<Rightarrow> string \<Rightarrow> string \<Rightarrow> string \<times> string \<times> string" where
  "partes dig ponto r0 =
     (let inteira = takeWhile dig r0; r1 = dropWhile dig r0
      in case apos_ponto ponto r1 of
           None \<Rightarrow> (inteira, [], r1)
         | Some cs \<Rightarrow> (inteira, takeWhile dig cs, dropWhile dig cs))"

text \<open>
  The exponent after one of the characters \<open>marcas\<close>: an optional sign and decimal
  digits; without a digit there is no exponent.
\<close>

definition expoente :: "string \<Rightarrow> string \<Rightarrow> int" where
  "expoente marcas r =
     (case r of
        [] \<Rightarrow> 0
      | c # cs \<Rightarrow>
          if c \<in> set marcas then
            (let ds = takeWhile is_digit (sem_sinal cs)
             in if ds = [] then 0
                else if negativo cs then - valor_digitos ds else valor_digitos ds)
          else 0)"

definition potencia :: "real \<Rightarrow> int \<Rightarrow> real" where
  "potencia b e = (if e \<ge> 0 then b ^ nat e else 1 / b ^ nat (- e))"

definition valor_decimal :: "string \<Rightarrow> string \<Rightarrow> real" where
  "valor_decimal ponto r0 =
     (case partes is_digit ponto r0 of
        (inteira, fracao, r2) \<Rightarrow>
          real_of_int (valor_digitos (inteira @ fracao))
            * potencia 10 (expoente ''eE'' r2 - int (length fracao)))"

definition valor_hexadecimal :: "string \<Rightarrow> string \<Rightarrow> real" where
  "valor_hexadecimal ponto r0 =
     (case partes is_hex ponto r0 of
        (inteira, fracao, r2) \<Rightarrow>
          real_of_int (valor_hex (inteira @ fracao))
            * potencia 2 (expoente ''pP'' r2 - 4 * int (length fracao)))"

definition eh_hexadecimal :: "string \<Rightarrow> string \<Rightarrow> bool" where
  "eh_hexadecimal ponto r0 \<longleftrightarrow>
     map minuscula (take 2 r0) = ''0x'' \<and> comeca_numero is_hex ponto (drop 2 r0)"

text \<open>
  The \<^verbatim>\<open>double\<close> for the exact magnitude \<open>q\<close> of a number, or the range error.
\<close>

definition numero64 :: "bool \<Rightarrow> real \<Rightarrow> erro + double" where
  "numero64 neg q =
     (let r = arred q
      in if 2 ^ 1024 \<le> \<bar>r\<bar> then Inl OutOfRange
         else if r \<noteq> q \<and> \<bar>arred_livre q\<bar> < 1 / 2 ^ 1022 then Inl OutOfRange
         else Inr (Finito (if neg then - r else r)))"

definition stod :: "string \<Rightarrow> string \<Rightarrow> erro + double" where
  "stod ponto s =
     (let r = dropWhile is_space s;
          r0 = sem_sinal r
      in if eh_hexadecimal ponto r0 then numero64 (negativo r) (valor_hexadecimal ponto (drop 2 r0))
         else if comeca_numero is_digit ponto r0
         then numero64 (negativo r) (valor_decimal ponto r0)
         else if map minuscula (take 3 r0) = ''inf'' then Inr (Infinito (negativo r))
         else if map minuscula (take 3 r0) = ''nan'' then Inr NaN
         else Inl InvalidArgument)"

subsection \<open>Reading the file and matching lines\<close>

text \<open>
  \<^verbatim>\<open>lerArquivoUtf8\<close>: the argument is the content of the file at the path, \<open>None\<close>
  when it cannot be opened.
\<close>

definition lerArquivoUtf8 :: "string option \<Rightarrow> string" where
  "lerArquivoUtf8 arquivo =
     (case arquivo of
        None \<Rightarrow> []
      | Some conteudo \<Rightarrow>
          if length conteudo \<ge> 3 \<and> conteudo ! 0 = CHR 0xEF \<and> conteudo ! 1 = CHR 0xBB
             \<and> conteudo ! 2 = CHR 0xBF
          then drop 3 conteudo else conteudo)"

text \<open>\<^verbatim>\<open>std::getline\<close> until it fails: \<open>atual\<close> holds the line being read, reversed.\<close>

fun getlines :: "string \<Rightarrow> string \<Rightarrow> string list" where
  "getlines atual [] = (if atual = [] then [] else [rev atual])"
| "getlines atual (c # cs) =
     (if c = CHR 0x0A then rev atual # getlines [] cs else getlines (c # atual) cs)"

definition trim :: "string \<Rightarrow> string" where
  "trim linha = rev (dropWhile is_trim (rev (dropWhile is_trim linha)))"

text \<open>
  The five regular expressions, each matched against a whole line
  (\<^verbatim>\<open>std::regex_match\<close>), as functions that return the captured groups. A greedy
  run of a character class that is followed by a character outside the class can only
  match the longest run, which is what \<open>takeWhile\<close> and \<open>dropWhile\<close> take.

  \<^verbatim>\<open>\[(.+)\]\<close>:
\<close>

definition match_padraoSecao :: "string \<Rightarrow> string option" where
  "match_padraoSecao linha =
     (if length linha \<ge> 3 \<and> hd linha = CHR ''['' \<and> last linha = CHR '']''
         \<and> list_all is_dot (butlast (tl linha))
      then Some (butlast (tl linha)) else None)"

text \<open>
  \<^verbatim>\<open>\s*(.+?)\s*=\s*(.+)\<close>. \<open>cv_valor\<close> matches \<^verbatim>\<open>\s*(.+)\<close> up to the end of the
  line: the white space run, and what follows it; when nothing follows, the run gives
  its last character to the group. \<open>cv_resto\<close> matches \<^verbatim>\<open>\s*=\s*(.+)\<close>. \<open>cv_chave\<close>
  tries the keys from the shortest on (the group is lazy), \<open>cv_inicio\<close> the leading
  white space from the longest run on.
\<close>

definition cv_valor :: "string \<Rightarrow> string option" where
  "cv_valor r =
     (let w = takeWhile is_space r; resto = dropWhile is_space r
      in if resto \<noteq> [] then (if list_all is_dot resto then Some resto else None)
         else if w \<noteq> [] \<and> is_dot (last w) then Some [last w]
         else None)"

definition cv_resto :: "string \<Rightarrow> string option" where
  "cv_resto r =
     (case dropWhile is_space r of
        [] \<Rightarrow> None
      | c # cs \<Rightarrow> if c = CHR ''='' then cv_valor cs else None)"

fun cv_chave :: "string \<Rightarrow> string \<Rightarrow> (string \<times> string) option" where
  "cv_chave chave [] = None"
| "cv_chave chave (c # cs) =
     (if is_dot c then
        (case cv_resto cs of
           Some valor \<Rightarrow> Some (chave @ [c], valor)
         | None \<Rightarrow> cv_chave (chave @ [c]) cs)
      else None)"

fun cv_inicio :: "string \<Rightarrow> (string \<times> string) option" where
  "cv_inicio [] = None"
| "cv_inicio (c # cs) =
     (if is_space c then
        (case cv_inicio cs of
           Some r \<Rightarrow> Some r
         | None \<Rightarrow> cv_chave [] (c # cs))
      else cv_chave [] (c # cs))"

definition match_padraoChaveValor :: "string \<Rightarrow> (string \<times> string) option" where
  "match_padraoChaveValor linha = cv_inicio linha"

text \<open>
  The common start \<^verbatim>\<open>(\d+)\s*=\s*M\s+\<close> of the three event expressions, for the
  marker \<open>M\<close>: the first group and the text after the white space.
\<close>

definition cabecalho_evento :: "string \<Rightarrow> string \<Rightarrow> (string \<times> string) option" where
  "cabecalho_evento marca linha =
     (let d1 = takeWhile is_digit linha
      in if d1 = [] then None
         else
           (case dropWhile is_space (dropWhile is_digit linha) of
              [] \<Rightarrow> None
            | c # r2 \<Rightarrow>
                if c = CHR ''='' then
                  (let r3 = dropWhile is_space r2;
                       r4 = drop (length marca) r3
                   in if take (length marca) r3 = marca \<and> takeWhile is_space r4 \<noteq> []
                      then Some (d1, dropWhile is_space r4) else None)
                else None))"

text \<open>\<^verbatim>\<open>(\d+)\s*=\s*B\s+(\d+)\<close>:\<close>

definition match_padraoTempo :: "string \<Rightarrow> (string \<times> string) option" where
  "match_padraoTempo linha =
     (case cabecalho_evento ''B'' linha of
        None \<Rightarrow> None
      | Some (d1, r) \<Rightarrow> if r \<noteq> [] \<and> list_all is_digit r then Some (d1, r) else None)"

text \<open>\<^verbatim>\<open>(\d+)\s*=\s*TS\s+(\d+)(?:\s+(\d+))?\<close>:\<close>

definition match_padraoAssinaturaTempo :: "string \<Rightarrow> (string \<times> string \<times> string option) option" where
  "match_padraoAssinaturaTempo linha =
     (case cabecalho_evento ''TS'' linha of
        None \<Rightarrow> None
      | Some (d1, r) \<Rightarrow>
          let d2 = takeWhile is_digit r; r2 = dropWhile is_digit r;
              d3 = dropWhile is_space r2
          in if d2 = [] then None
             else if r2 = [] then Some (d1, d2, None)
             else if takeWhile is_space r2 \<noteq> [] \<and> d3 \<noteq> [] \<and> list_all is_digit d3
             then Some (d1, d2, Some d3)
             else None)"

text \<open>\<^verbatim>\<open>(\d+)\s*=\s*N\s+(\d+)\s+(\d+)\<close>:\<close>

definition match_padraoNota :: "string \<Rightarrow> (string \<times> string \<times> string) option" where
  "match_padraoNota linha =
     (case cabecalho_evento ''N'' linha of
        None \<Rightarrow> None
      | Some (d1, r) \<Rightarrow>
          let d2 = takeWhile is_digit r; r2 = dropWhile is_digit r;
              d3 = dropWhile is_space r2
          in if d2 \<noteq> [] \<and> takeWhile is_space r2 \<noteq> [] \<and> d3 \<noteq> [] \<and> list_all is_digit d3
             then Some (d1, d2, d3)
             else None)"

subsection \<open>The parser\<close>

definition tirarAspas :: "string \<Rightarrow> string" where
  "tirarAspas valor =
     (if length valor \<ge> 2 \<and> hd valor = CHR 0x22 \<and> last valor = CHR 0x22
      then butlast (tl valor) else valor)"

text \<open>
  \<^verbatim>\<open>processarLinhaNaSecao\<close>: an exception of a conversion leaves the function, and
  the chart is then lost with it.
\<close>

definition processarLinhaSong :: "string \<Rightarrow> DadosChart \<Rightarrow> string \<Rightarrow> erro + DadosChart" where
  "processarLinhaSong ponto chart linha =
     (case match_padraoChaveValor linha of
        None \<Rightarrow> Inr chart
      | Some (chave, valorBrutoTexto) \<Rightarrow>
          let valor = tirarAspas valorBrutoTexto
          in if chave = ''Name'' then Inr (chart \<lparr> nome := valor \<rparr>)
             else if chave = ''Artist'' then Inr (chart \<lparr> artista := valor \<rparr>)
             else if chave = ''Charter'' then Inr (chart \<lparr> criadorChart := valor \<rparr>)
             else if chave = ''Album'' then Inr (chart \<lparr> album := valor \<rparr>)
             else if chave = ''Year'' then Inr (chart \<lparr> ano := valor \<rparr>)
             else if chave = ''Genre'' then Inr (chart \<lparr> genero := valor \<rparr>)
             else if chave = ''MediaType'' then Inr (chart \<lparr> tipoMidia := valor \<rparr>)
             else if chave = ''Player2'' then Inr (chart \<lparr> jogador2 := valor \<rparr>)
             else if chave = ''MusicStream'' then Inr (chart \<lparr> streamMusica := valor \<rparr>)
             else if chave = ''Offset'' then
               (case stod ponto valor of Inl e \<Rightarrow> Inl e | Inr x \<Rightarrow> Inr (chart \<lparr> offset := x \<rparr>))
             else if chave = ''Resolution'' then
               (case stoi valor of Inl e \<Rightarrow> Inl e | Inr x \<Rightarrow> Inr (chart \<lparr> resolucao := x \<rparr>))
             else if chave = ''Difficulty'' then
               (case stoi valor of Inl e \<Rightarrow> Inl e | Inr x \<Rightarrow> Inr (chart \<lparr> dificuldade := x \<rparr>))
             else if chave = ''PreviewStart'' then
               (case stod ponto valor of Inl e \<Rightarrow> Inl e | Inr x \<Rightarrow> Inr (chart \<lparr> inicioPreview := x \<rparr>))
             else if chave = ''PreviewEnd'' then
               (case stod ponto valor of Inl e \<Rightarrow> Inl e | Inr x \<Rightarrow> Inr (chart \<lparr> fimPreview := x \<rparr>))
             else Inr chart)"

definition processarLinhaSyncTrack :: "DadosChart \<Rightarrow> string \<Rightarrow> erro + DadosChart" where
  "processarLinhaSyncTrack chart linha =
     (case match_padraoTempo linha of
        Some (g1, g2) \<Rightarrow>
          (case stoi g1 of
             Inl e \<Rightarrow> Inl e
           | Inr t \<Rightarrow>
               (case stoi g2 of
                  Inl e \<Rightarrow> Inl e
                | Inr v \<Rightarrow>
                    Inr (chart \<lparr> mudancasTempo :=
                           map_emplace t \<lparr> tick = t, valorBruto = v \<rparr> (mudancasTempo chart) \<rparr>)))
      | None \<Rightarrow>
          (case match_padraoAssinaturaTempo linha of
             None \<Rightarrow> Inr chart
           | Some (g1, g2, g3) \<Rightarrow>
               (case (case g3 of None \<Rightarrow> Inr 4 | Some d \<Rightarrow> stoi d) of
                  Inl e \<Rightarrow> Inl e
                | Inr den \<Rightarrow>
                    (case stoi g1 of
                       Inl e \<Rightarrow> Inl e
                     | Inr t \<Rightarrow>
                         (case stoi g2 of
                            Inl e \<Rightarrow> Inl e
                          | Inr n \<Rightarrow>
                              Inr (chart \<lparr> assinaturasTempo :=
                                     map_emplace t
                                       \<lparr> tickAssinatura = t, numerador = n,
                                         denominador = (if den = 0 then 4 else den) \<rparr>
                                       (assinaturasTempo chart) \<rparr>))))))"

definition processarLinhaNotas :: "DadosChart \<Rightarrow> string \<Rightarrow> erro + DadosChart" where
  "processarLinhaNotas chart linha =
     (case match_padraoNota linha of
        None \<Rightarrow> Inr chart
      | Some (g1, g2, g3) \<Rightarrow>
          (case stoi g1 of
             Inl e \<Rightarrow> Inl e
           | Inr t \<Rightarrow>
               (case stoi g2 of
                  Inl e \<Rightarrow> Inl e
                | Inr tr \<Rightarrow>
                    (case stoi g3 of
                       Inl e \<Rightarrow> Inl e
                     | Inr compr \<Rightarrow>
                         Inr (chart \<lparr> notas := notas chart
                                @ [\<lparr> tickNota = t, traste = tr, comprimento = compr \<rparr>] \<rparr>)))))"

definition processarLinhaNaSecao ::
  "string \<Rightarrow> DadosChart \<Rightarrow> string \<Rightarrow> string \<Rightarrow> erro + DadosChart" where
  "processarLinhaNaSecao ponto chart secao linha =
     (if secao = ''Song'' then processarLinhaSong ponto chart linha
      else if secao = ''SyncTrack'' then processarLinhaSyncTrack chart linha
      else if secao = ''ExpertSingle'' \<or> secao = ''HardSingle''
              \<or> secao = ''MediumSingle'' \<or> secao = ''EasySingle''
      then processarLinhaNotas chart linha
      else Inr chart)"

text \<open>
  What the loop of \<^verbatim>\<open>fazerParsingChart\<close> does with one raw line, apart from the
  chart: skip it, enter a section, or hand the trimmed line to
  \<^verbatim>\<open>processarLinhaNaSecao\<close>.
\<close>

datatype acao_linha = Pular | Secao string | Processar string

definition classificarLinha :: "string \<Rightarrow> string \<Rightarrow> acao_linha" where
  "classificarLinha secaoAtual linhaBruta =
     (let linhaAtual = trim linhaBruta
      in if linhaAtual = [] \<or> take 2 linhaAtual = ''//'' then Pular
         else
           (case match_padraoSecao linhaAtual of
              Some s \<Rightarrow> Secao s
            | None \<Rightarrow>
                if linhaAtual = ''{'' \<or> linhaAtual = ''}'' then Pular
                else if secaoAtual \<noteq> [] then Processar linhaAtual
                else Pular))"

fun processarLinhas ::
  "string \<Rightarrow> DadosChart \<Rightarrow> string \<Rightarrow> string list \<Rightarrow> erro + DadosChart" where
  "processarLinhas ponto chart secaoAtual [] = Inr chart"
| "processarLinhas ponto chart secaoAtual (linhaBruta # resto) =
     (case classificarLinha secaoAtual linhaBruta of
        Pular \<Rightarrow> processarLinhas ponto chart secaoAtual resto
      | Secao s \<Rightarrow> processarLinhas ponto chart s resto
      | Processar linhaAtual \<Rightarrow>
          (case processarLinhaNaSecao ponto chart secaoAtual linhaAtual of
             Inl e \<Rightarrow> Inl e
           | Inr chart' \<Rightarrow> processarLinhas ponto chart' secaoAtual resto))"

text \<open>
  \<^verbatim>\<open>fazerParsingChart\<close>, in an environment whose decimal point is \<open>ponto\<close>: \<open>Inl\<close> is an
  exception that leaves the function, \<open>Inr None\<close> is \<^verbatim>\<open>std::nullopt\<close>. The source's sort
  of the notes does not fix the order of notes of equal tick; the sort here keeps their
  order.
\<close>

definition fazerParsingChart :: "string \<Rightarrow> string option \<Rightarrow> erro + DadosChart option" where
  "fazerParsingChart ponto arquivo =
     (let conteudoUtf8 = lerArquivoUtf8 arquivo
      in if conteudoUtf8 = [] then Inr None
         else
           (case processarLinhas ponto DadosChart_inicial [] (getlines [] conteudoUtf8) of
              Inl e \<Rightarrow> Inl e
            | Inr dadosChart \<Rightarrow>
                Inr (Some (dadosChart \<lparr> notas := sort_key tickNota (notas dadosChart) \<rparr>))))"

subsection \<open>The lines of a file, with their sections\<close>

text \<open>
  The pairs (section, trimmed line) that the loop hands to
  \<^verbatim>\<open>processarLinhaNaSecao\<close>, in order: the lines of the file's sections.
\<close>

fun linhasDasSecoes :: "string \<Rightarrow> string list \<Rightarrow> (string \<times> string) list" where
  "linhasDasSecoes secaoAtual [] = []"
| "linhasDasSecoes secaoAtual (linhaBruta # resto) =
     (case classificarLinha secaoAtual linhaBruta of
        Pular \<Rightarrow> linhasDasSecoes secaoAtual resto
      | Secao s \<Rightarrow> linhasDasSecoes s resto
      | Processar linhaAtual \<Rightarrow> (secaoAtual, linhaAtual) # linhasDasSecoes secaoAtual resto)"

definition linhasDoArquivo :: "string option \<Rightarrow> (string \<times> string) list" where
  "linhasDoArquivo arquivo = linhasDasSecoes [] (getlines [] (lerArquivoUtf8 arquivo))"

fun processarPares ::
  "string \<Rightarrow> DadosChart \<Rightarrow> (string \<times> string) list \<Rightarrow> erro + DadosChart" where
  "processarPares ponto chart [] = Inr chart"
| "processarPares ponto chart ((secao, linha) # resto) =
     (case processarLinhaNaSecao ponto chart secao linha of
        Inl e \<Rightarrow> Inl e
      | Inr chart' \<Rightarrow> processarPares ponto chart' resto)"

text \<open>Example files.\<close>

definition arquivo_exemplo :: string where
  "arquivo_exemplo =
     ''[Song]'' @ [CHR 0x0A] @ ''{'' @ [CHR 0x0A]
     @ ''  Name = '' @ [CHR 0x22] @ ''Riff'' @ [CHR 0x22] @ [CHR 0x0A]
     @ ''  Offset = 0'' @ [CHR 0x0A]
     @ ''}'' @ [CHR 0x0A]
     @ ''[SyncTrack]'' @ [CHR 0x0A] @ ''{'' @ [CHR 0x0A]
     @ ''  0 = B 120000'' @ [CHR 0x0A]
     @ ''  0 = TS 4'' @ [CHR 0x0A]
     @ ''  384 = B 150000'' @ [CHR 0x0A]
     @ ''}'' @ [CHR 0x0A]
     @ ''[ExpertSingle]'' @ [CHR 0x0A] @ ''{'' @ [CHR 0x0A]
     @ ''  192 = N 0 0'' @ [CHR 0x0A]
     @ ''}'' @ [CHR 0x0A]"



definition arquivo_tempo_duplicado :: string where
  "arquivo_tempo_duplicado =
     ''[SyncTrack]'' @ [CHR 0x0A] @ ''{'' @ [CHR 0x0A]
     @ ''  0 = B 120000'' @ [CHR 0x0A]
     @ ''  0 = TS 4'' @ [CHR 0x0A]
     @ ''  0 = B 150000'' @ [CHR 0x0A]
     @ ''  0 = TS 3 8'' @ [CHR 0x0A]
     @ ''}'' @ [CHR 0x0A]"

definition arquivo_offset_nan :: string where
  "arquivo_offset_nan =
     ''[Song]'' @ [CHR 0x0A] @ ''{'' @ [CHR 0x0A]
     @ ''  Offset = nan'' @ [CHR 0x0A]
     @ ''}'' @ [CHR 0x0A]
     @ ''[SyncTrack]'' @ [CHR 0x0A] @ ''{'' @ [CHR 0x0A]
     @ ''  0 = B 120000'' @ [CHR 0x0A]
     @ ''}'' @ [CHR 0x0A]"

subsection \<open>Auxiliary definitions for the parser\<close>

text \<open>
  The tempo event and the time signature that a line of the file denotes: the line is
  in section SyncTrack, matches the expression (for a time signature: after the tempo
  expression did not match), and its numbers convert.
\<close>

definition evento_tempo_da_linha :: "string \<times> string \<Rightarrow> MudancaTempo option" where
  "evento_tempo_da_linha par =
     (if fst par = ''SyncTrack'' then
        (case match_padraoTempo (snd par) of
           None \<Rightarrow> None
         | Some (g1, g2) \<Rightarrow>
             (case (stoi g1, stoi g2) of
                (Inr t, Inr v) \<Rightarrow> Some \<lparr> tick = t, valorBruto = v \<rparr>
              | _ \<Rightarrow> None))
      else None)"

definition assinatura_da_linha :: "string \<times> string \<Rightarrow> AssinaturaTempo option" where
  "assinatura_da_linha par =
     (if fst par = ''SyncTrack'' \<and> match_padraoTempo (snd par) = None then
        (case match_padraoAssinaturaTempo (snd par) of
           None \<Rightarrow> None
         | Some (g1, g2, g3) \<Rightarrow>
             (case (stoi g1, stoi g2, (case g3 of None \<Rightarrow> Inr 4 | Some d \<Rightarrow> stoi d)) of
                (Inr t, Inr n, Inr den) \<Rightarrow>
                  Some \<lparr> tickAssinatura = t, numerador = n,
                         denominador = (if den = 0 then 4 else den) \<rparr>
              | _ \<Rightarrow> None))
      else None)"




text \<open>
  A line none of whose numeric fields is malformed: every conversion that
  \<^verbatim>\<open>processarLinhaNaSecao\<close> asks for on it yields a number.
\<close>

definition converte :: "erro + 'a \<Rightarrow> bool" where
  "converte r = (case r of Inl e \<Rightarrow> False | Inr x \<Rightarrow> True)"

definition campos_numericos_ok :: "string \<Rightarrow> string \<Rightarrow> string \<Rightarrow> bool" where
  "campos_numericos_ok ponto secao linha =
     (if secao = ''Song'' then
        (case match_padraoChaveValor linha of
           None \<Rightarrow> True
         | Some (chave, valor) \<Rightarrow>
             if chave = ''Offset'' \<or> chave = ''PreviewStart'' \<or> chave = ''PreviewEnd''
             then converte (stod ponto (tirarAspas valor))
             else if chave = ''Resolution'' \<or> chave = ''Difficulty''
             then converte (stoi (tirarAspas valor))
             else True)
      else if secao = ''SyncTrack'' then
        (case match_padraoTempo linha of
           Some (g1, g2) \<Rightarrow> converte (stoi g1) \<and> converte (stoi g2)
         | None \<Rightarrow>
             (case match_padraoAssinaturaTempo linha of
                None \<Rightarrow> True
              | Some (g1, g2, g3) \<Rightarrow>
                  converte (stoi g1) \<and> converte (stoi g2)
                  \<and> (case g3 of None \<Rightarrow> True | Some d \<Rightarrow> converte (stoi d))))
      else if secao = ''ExpertSingle'' \<or> secao = ''HardSingle''
              \<or> secao = ''MediumSingle'' \<or> secao = ''EasySingle'' then
        (case match_padraoNota linha of
           None \<Rightarrow> True
         | Some (g1, g2, g3) \<Rightarrow> converte (stoi g1) \<and> converte (stoi g2) \<and> converte (stoi g3))
      else True)"

text \<open>The key of a line of section Song, when it has one.\<close>

definition chave_da_linha :: "string \<times> string \<Rightarrow> string option" where
  "chave_da_linha par =
     (if fst par = ''Song'' then map_option fst (match_padraoChaveValor (snd par)) else None)"

text \<open>The same invariants as \<open>mapa_tempo_ok\<close>, for any map of the chart.\<close>

definition mapa_ordenado :: "(int \<times> 'v) list \<Rightarrow> bool" where
  "mapa_ordenado m \<longleftrightarrow> sorted_wrt (<) (map fst m)"

text \<open>
  The content of a map after the lines \<open>ps\<close>, when each line that denotes an element
  (\<open>f\<close>) inserts it under its key (\<open>chave\<close>) with \<open>map_emplace\<close>.
\<close>

fun aplicar_linhas ::
  "(string \<times> string \<Rightarrow> 'v option) \<Rightarrow> ('v \<Rightarrow> int) \<Rightarrow> (int \<times> 'v) list
     \<Rightarrow> (string \<times> string) list \<Rightarrow> (int \<times> 'v) list" where
  "aplicar_linhas f chave m [] = m"
| "aplicar_linhas f chave m (p # ps) =
     aplicar_linhas f chave
       (case f p of None \<Rightarrow> m | Some x \<Rightarrow> map_emplace (chave x) x m) ps"


text \<open>What the parser returns for \<open>arquivo_offset_nan\<close>.\<close>

definition chart_do_arquivo_offset_nan :: DadosChart where
  "chart_do_arquivo_offset_nan = DadosChart_inicial
     \<lparr> offset := NaN,
       mudancasTempo := [(0, \<lparr> tick = 0, valorBruto = 120000 \<rparr>)] \<rparr>"

section \<open>Players and runtime notes\<close>

definition LARGURA_JANELA :: int where "LARGURA_JANELA = 1200"
definition ALTURA_JANELA :: int where "ALTURA_JANELA = 1200"
definition LARGURA_PAINEL_CENTRAL :: int where "LARGURA_PAINEL_CENTRAL = 400"
definition LARGURA_BRASTEADO :: int where
  "LARGURA_BRASTEADO = (LARGURA_JANELA - LARGURA_PAINEL_CENTRAL) div 2"
definition NUMERO_PISTAS :: int where "NUMERO_PISTAS = 5"
definition ALTURA_NOTA :: int where "ALTURA_NOTA = 45"
definition Y_ZONA_ACERTO :: int where "Y_ZONA_ACERTO = ALTURA_JANELA - 100"
definition ALTURA_ZONA_ACERTO :: int where "ALTURA_ZONA_ACERTO = 75"
definition VELOCIDADE_QUEDA_NOTA_PPS :: real where "VELOCIDADE_QUEDA_NOTA_PPS = 800"
definition TOLERANCIA_ACERTO_MS :: int where "TOLERANCIA_ACERTO_MS = 200"

text \<open>
  \<^verbatim>\<open>sf::Time\<close> counts microseconds in a 64-bit integer: \<^verbatim>\<open>sf::seconds(0.08f)\<close> is
  80000 of them.
\<close>

definition INTERVALO_SPAWN_PARTICULA_SUSTAIN :: int where
  "INTERVALO_SPAWN_PARTICULA_SUSTAIN = 80000"

datatype Tecla =
  Key_A | Key_S | Key_D | Key_F | Key_G
  | Key_J | Key_K | Key_L | Key_Semicolon | Key_Apostrophe
  | Key_Space | Key_Outra nat

text \<open>
  \<^verbatim>\<open>std::map<Key, int>\<close> is an association list read with \<open>map_of\<close>,
  \<^verbatim>\<open>std::set<Key>\<close> a set, \<^verbatim>\<open>std::map<int, bool>\<close> a partial map.
\<close>

record Jogador =
  pontuacao :: int
  mapeamentoTeclaPista :: "(Tecla \<times> int) list"
  offsetAreaJogadorX :: int
  nomeJogador :: string
  teclasPresionadas :: "Tecla set"
  pistaPermiteAcertoNotaCurta :: "int \<rightharpoonup> bool"

definition Jogador_init :: "string \<Rightarrow> int \<Rightarrow> (Tecla \<times> int) list \<Rightarrow> Jogador" where
  "Jogador_init n offsetX mapaTeclas =
     \<lparr> pontuacao = 0, mapeamentoTeclaPista = mapaTeclas, offsetAreaJogadorX = offsetX,
       nomeJogador = n, teclasPresionadas = {},
       pistaPermiteAcertoNotaCurta =
         fold (\<lambda>(tecla, pista) m. m(pista \<mapsto> True)) mapaTeclas Map.empty \<rparr>"

definition adicionarPontuacao :: "int \<Rightarrow> Jogador \<Rightarrow> Jogador" where
  "adicionarPontuacao pontos j = j \<lparr> pontuacao := pontuacao j + pontos \<rparr>"

definition jogador1 :: Jogador where
  "jogador1 = Jogador_init ''Jogador 1'' 0
     [(Key_A, 0), (Key_S, 1), (Key_D, 2), (Key_F, 3), (Key_G, 4)]"

definition jogador2 :: Jogador where
  "jogador2 = Jogador_init ''Jogador 2'' (LARGURA_BRASTEADO + LARGURA_PAINEL_CENTRAL)
     [(Key_J, 0), (Key_K, 1), (Key_L, 2), (Key_Semicolon, 3), (Key_Apostrophe, 4)]"

text \<open>
  A runtime note. The owner pointer \<^verbatim>\<open>dono\<close> is the number of the player (1 or 2);
  the colour, which only the renderer reads, is left out.
\<close>

record Nota =
  timestampSec :: real
  tickOriginal :: int
  pista :: int
  trasteNota :: int
  posicaoY :: real
  naTela :: bool
  acertada :: bool
  perdida :: bool
  dono :: nat
  ehNotaLonga :: bool
  tempoFimSustainSec :: real
  sustainAtivo :: bool
  sustainCompleto :: bool
  tempoAteProximaParticulaSustain :: int

definition Nota_init :: "NotaChart \<Rightarrow> real \<Rightarrow> real \<Rightarrow> nat \<Rightarrow> Nota" where
  "Nota_init notaChart timestampSeg fimSustainSeg proprietario =
     \<lparr> timestampSec = timestampSeg, tickOriginal = tickNota notaChart,
       pista = traste notaChart, trasteNota = traste notaChart, posicaoY = 0,
       naTela = False, acertada = False, perdida = False, dono = proprietario,
       ehNotaLonga = (comprimento notaChart > 0), tempoFimSustainSec = fimSustainSeg,
       sustainAtivo = False, sustainCompleto = False,
       tempoAteProximaParticulaSustain = 0 \<rparr>"

section \<open>Gameplay engine\<close>

text \<open>
  The engine's functions act on a player and that player's notes, which the source
  passes by reference; here they return the new values. Sound and particles (random
  positions and lifetimes, read by the renderer only) are not part of the state.
\<close>

definition atualizarVisibilidadeNota :: "Nota \<Rightarrow> Nota" where
  "atualizarVisibilidadeNota nota =
     (let raioCapeca = real_of_int ALTURA_NOTA / 2;
          cabecaPotencialmenteVisivel =
            (posicaoY nota + raioCapeca > 0
             \<and> posicaoY nota - raioCapeca < real_of_int ALTURA_JANELA);
          pixelsSustain =
            (tempoFimSustainSec nota - timestampSec nota) * VELOCIDADE_QUEDA_NOTA_PPS;
          caldaPotencialmenteVisivel =
            (if ehNotaLonga nota
             then posicaoY nota > 0
                  \<and> posicaoY nota - max 0 pixelsSustain < real_of_int ALTURA_JANELA
             else False);
          nota1 = (if (cabecaPotencialmenteVisivel \<or> caldaPotencialmenteVisivel)
                      \<and> \<not> naTela nota
                   then nota \<lparr> naTela := True \<rparr> else nota)
      in if naTela nota1 then
           (if posicaoY nota1 + raioCapeca < 0 then
              (if \<not> acertada nota1 \<and> \<not> perdida nota1
               then nota1 \<lparr> perdida := True \<rparr> else nota1) \<lparr> naTela := False \<rparr>
            else
              let yVisualMaisAlto =
                    (if ehNotaLonga nota1 then posicaoY nota1 - pixelsSustain
                     else posicaoY nota1 - raioCapeca)
              in if yVisualMaisAlto > real_of_int ALTURA_JANELA then
                   (let nota2 = (if \<not> acertada nota1 \<and> \<not> perdida nota1
                                 then nota1 \<lparr> perdida := True \<rparr> else nota1);
                        nota3 = (if ehNotaLonga nota2 \<and> acertada nota2
                                    \<and> \<not> sustainCompleto nota2
                                 then nota2 \<lparr> perdida := True \<rparr> else nota2)
                    in nota3 \<lparr> naTela := False \<rparr>)
                 else nota1 \<lparr> naTela := True \<rparr>)
         else nota1)"

definition verificarNotaPerdida :: "Nota \<Rightarrow> real \<Rightarrow> Nota" where
  "verificarNotaPerdida nota tempoMusicaSec =
     (let raioCapeca = real_of_int ALTURA_NOTA / 2
      in if \<not> ehNotaLonga nota
            \<and> posicaoY nota > real_of_int (Y_ZONA_ACERTO + ALTURA_ZONA_ACERTO) + raioCapeca
         then nota \<lparr> perdida := True \<rparr>
         else if ehNotaLonga nota
                 \<and> tempoMusicaSec > tempoFimSustainSec nota
                                     + real_of_int TOLERANCIA_ACERTO_MS / 1000
         then nota \<lparr> perdida := True \<rparr>
         else nota)"

text \<open>The body of the loop of \<^verbatim>\<open>atualizarLogicaJogador\<close>, and the loop.\<close>

definition atualizarLogicaNota :: "real \<Rightarrow> Nota \<Rightarrow> Nota" where
  "atualizarLogicaNota tempoMusicaSec nota =
     (let tempoAteAcerto = timestampSec nota - tempoMusicaSec;
          yAlvo = real_of_int Y_ZONA_ACERTO - tempoAteAcerto * VELOCIDADE_QUEDA_NOTA_PPS;
          nota1 = nota \<lparr> posicaoY := yAlvo \<rparr>
      in if perdida nota1 then atualizarVisibilidadeNota nota1
         else
           let nota2 = atualizarVisibilidadeNota nota1
           in if naTela nota2 \<and> \<not> acertada nota2
              then verificarNotaPerdida nota2 tempoMusicaSec
              else nota2)"

definition atualizarLogicaJogador :: "Nota list \<Rightarrow> real \<Rightarrow> Nota list" where
  "atualizarLogicaJogador notasJogador tempoMusicaSec =
     map (atualizarLogicaNota tempoMusicaSec) notasJogador"

text \<open>The body of the loop of \<^verbatim>\<open>atualizarSustainParaJogador\<close>, and the loop.\<close>

definition atualizarSustainNota :: "Jogador \<Rightarrow> Nota \<Rightarrow> real \<Rightarrow> int \<Rightarrow> Jogador \<times> Nota" where
  "atualizarSustainNota jogador nota tempoMusicaSec dt =
     (if \<not> ehNotaLonga nota \<or> sustainCompleto nota \<or> perdida nota
         \<or> \<not> naTela nota \<or> \<not> acertada nota
      then (jogador, nota)
      else
        let teclaPresionadaParaPista =
              list_ex (\<lambda>(tecla, p). p = pista nota \<and> tecla \<in> teclasPresionadas jogador)
                (mapeamentoTeclaPista jogador);
            dentroPeriodoSustain =
              (tempoMusicaSec \<ge> timestampSec nota
               \<and> tempoMusicaSec \<le> tempoFimSustainSec nota);
            (jogadorS, notaS) =
              (if teclaPresionadaParaPista \<and> dentroPeriodoSustain then
                 (let restante = tempoAteProximaParticulaSustain nota - dt
                  in (adicionarPontuacao 1 jogador,
                      nota \<lparr> sustainAtivo := True,
                             tempoAteProximaParticulaSustain :=
                               (if restante \<le> 0 then INTERVALO_SPAWN_PARTICULA_SUSTAIN
                                else restante) \<rparr>))
               else (jogador, nota \<lparr> sustainAtivo := False \<rparr>))
        in if tempoMusicaSec > tempoFimSustainSec notaS \<and> sustainAtivo notaS
           then (adicionarPontuacao 20 jogadorS,
                 notaS \<lparr> sustainCompleto := True, sustainAtivo := False \<rparr>)
           else (jogadorS, notaS))"

fun atualizarSustainParaJogador ::
  "Jogador \<Rightarrow> Nota list \<Rightarrow> real \<Rightarrow> int \<Rightarrow> Jogador \<times> Nota list" where
  "atualizarSustainParaJogador jogador [] tempoMusicaSec dt = (jogador, [])"
| "atualizarSustainParaJogador jogador (nota # restoNotas) tempoMusicaSec dt =
     (let (jogador', nota') = atualizarSustainNota jogador nota tempoMusicaSec dt;
          (jogador'', notas') = atualizarSustainParaJogador jogador' restoNotas tempoMusicaSec dt
      in (jogador'', nota' # notas'))"

text \<open>
  The test of \<^verbatim>\<open>verificarAcertoNota\<close> on one note, the body of its loop, and the
  function: it returns the constant \<^verbatim>\<open>false\<close> of the source's last line.
\<close>

definition notaAcertavel :: "Nota \<Rightarrow> int \<Rightarrow> real \<Rightarrow> bool" where
  "notaAcertavel nota pistaAlvo tempoMusicaSec \<longleftrightarrow>
     pista nota = pistaAlvo \<and> \<not> acertada nota \<and> \<not> perdida nota \<and> naTela nota
     \<and> posicaoY nota \<ge> real_of_int (Y_ZONA_ACERTO - ALTURA_NOTA)
     \<and> posicaoY nota \<le> real_of_int (Y_ZONA_ACERTO + ALTURA_ZONA_ACERTO + ALTURA_NOTA)
     \<and> \<bar>timestampSec nota - tempoMusicaSec\<bar> * 1000 \<le> real_of_int TOLERANCIA_ACERTO_MS"

definition verificarAcertoUmaNota :: "Jogador \<Rightarrow> Nota \<Rightarrow> int \<Rightarrow> real \<Rightarrow> Jogador \<times> Nota" where
  "verificarAcertoUmaNota jogador nota pistaAlvo tempoMusicaSec =
     (if notaAcertavel nota pistaAlvo tempoMusicaSec
      then (adicionarPontuacao (if ehNotaLonga nota then 5 else 10) jogador,
            nota \<lparr> acertada := True \<rparr>)
      else (jogador, nota))"

fun verificarAcertoNota_laco ::
  "Jogador \<Rightarrow> Nota list \<Rightarrow> int \<Rightarrow> real \<Rightarrow> Jogador \<times> Nota list" where
  "verificarAcertoNota_laco jogador [] pistaAlvo tempoMusicaSec = (jogador, [])"
| "verificarAcertoNota_laco jogador (nota # restoNotas) pistaAlvo tempoMusicaSec =
     (let (jogador', nota') = verificarAcertoUmaNota jogador nota pistaAlvo tempoMusicaSec;
          (jogador'', notas') = verificarAcertoNota_laco jogador' restoNotas pistaAlvo tempoMusicaSec
      in (jogador'', nota' # notas'))"

definition verificarAcertoNota ::
  "Jogador \<Rightarrow> Nota list \<Rightarrow> int \<Rightarrow> real \<Rightarrow> bool \<times> Jogador \<times> Nota list" where
  "verificarAcertoNota jogador notasJogador pistaAlvo tempoMusicaSec =
     (False, verificarAcertoNota_laco jogador notasJogador pistaAlvo tempoMusicaSec)"

text \<open>
  \<^verbatim>\<open>operator[]\<close> of \<^verbatim>\<open>std::map<int, bool>\<close>: reading an absent key files
  \<^verbatim>\<open>false\<close> under it.
\<close>

definition lerPistaPermite :: "(int \<rightharpoonup> bool) \<Rightarrow> int \<Rightarrow> bool \<times> (int \<rightharpoonup> bool)" where
  "lerPistaPermite m p = (case m p of Some b \<Rightarrow> (b, m) | None \<Rightarrow> (False, m(p \<mapsto> False)))"

text \<open>
  The two lambdas of \<^verbatim>\<open>processarTeclaPress\<close> and \<^verbatim>\<open>processarTeclaRelease\<close>, which
  the source applies to each player while the game runs; \<open>tempoAtualMusicaSec\<close> is the
  playing offset of the music at the event.
\<close>

definition processarTeclaPressJogador ::
  "Tecla \<Rightarrow> real \<Rightarrow> Jogador \<Rightarrow> Nota list \<Rightarrow> Jogador \<times> Nota list" where
  "processarTeclaPressJogador tecla tempoAtualMusicaSec jogador notasJogador =
     (case map_of (mapeamentoTeclaPista jogador) tecla of
        None \<Rightarrow> (jogador, notasJogador)
      | Some pistaTecla \<Rightarrow>
          let jogadorA = jogador \<lparr> teclasPresionadas := insert tecla (teclasPresionadas jogador) \<rparr>;
              (permite, m) = lerPistaPermite (pistaPermiteAcertoNotaCurta jogadorA) pistaTecla;
              jogadorB = jogadorA \<lparr> pistaPermiteAcertoNotaCurta := m \<rparr>
          in if permite then
               (let (notaCurtaFoiAcertada, jogadorC, notas') =
                      verificarAcertoNota jogadorB notasJogador pistaTecla tempoAtualMusicaSec
                in if notaCurtaFoiAcertada
                   then (jogadorC \<lparr> pistaPermiteAcertoNotaCurta :=
                            (pistaPermiteAcertoNotaCurta jogadorC)(pistaTecla \<mapsto> False) \<rparr>, notas')
                   else (jogadorC, notas'))
             else (jogadorB, notasJogador))"

definition processarTeclaReleaseJogador :: "Tecla \<Rightarrow> Jogador \<Rightarrow> Jogador" where
  "processarTeclaReleaseJogador tecla jogador =
     (case map_of (mapeamentoTeclaPista jogador) tecla of
        None \<Rightarrow> jogador
      | Some pistaTecla \<Rightarrow>
          jogador \<lparr> teclasPresionadas := teclasPresionadas jogador - {tecla},
                    pistaPermiteAcertoNotaCurta :=
                      (pistaPermiteAcertoNotaCurta jogador)(pistaTecla \<mapsto> True) \<rparr>)"

text \<open>
  The part of \<^verbatim>\<open>atualizar\<close> that concerns one player: the note logic, then the
  sustain scoring, at the music time \<open>tempoAtualMusicaSec\<close>.
\<close>

definition atualizarJogador ::
  "real \<Rightarrow> int \<Rightarrow> Jogador \<times> Nota list \<Rightarrow> Jogador \<times> Nota list" where
  "atualizarJogador tempoAtualMusicaSec dt estado =
     atualizarSustainParaJogador (fst estado)
       (atualizarLogicaJogador (snd estado) tempoAtualMusicaSec) tempoAtualMusicaSec dt"

subsection \<open>Example sessions\<close>

text \<open>
  A short note and a sustain note of lane 0, as the timeline builder makes them for
  player 1: the short note at 1 s, the sustain from 1 s to 1.5 s.
\<close>

definition nota_curta_exemplo :: Nota where
  "nota_curta_exemplo = Nota_init \<lparr> tickNota = 384, traste = 0, comprimento = 0 \<rparr> 1 1 1"

definition nota_longa_exemplo :: Nota where
  "nota_longa_exemplo =
     Nota_init \<lparr> tickNota = 384, traste = 0, comprimento = 192 \<rparr> 1 (3 / 2) 1"

text \<open>
  Sustain session: the note logic runs at 1 s, player 1 presses A at 1 s and keeps it
  down; engine ticks follow at 1.2 s, 1.5 s and 1.506 s.
\<close>

definition sustain_s0 :: "Jogador \<times> Nota list" where
  "sustain_s0 = processarTeclaPressJogador Key_A 1 jogador1
                  (atualizarLogicaJogador [nota_longa_exemplo] 1)"

definition sustain_s1 :: "Jogador \<times> Nota list" where
  "sustain_s1 = atualizarJogador (12 / 10) 6000 sustain_s0"

definition sustain_s2 :: "Jogador \<times> Nota list" where
  "sustain_s2 = atualizarJogador (15 / 10) 6000 sustain_s1"

definition sustain_s3 :: "Jogador \<times> Nota list" where
  "sustain_s3 = atualizarJogador (1506 / 1000) 6000 sustain_s2"

text \<open>
  Short-note session: two short notes of lane 0 at 1 s and 1.2 s; the note logic runs
  at 1 s and player 1 presses A at 1 s; the note logic runs at 1.2 s and a second
  key-press event of A arrives at 1.2 s with no release in between.
\<close>

definition curta_s0 :: "Jogador \<times> Nota list" where
  "curta_s0 = processarTeclaPressJogador Key_A 1 jogador1
     (atualizarLogicaJogador
        [nota_curta_exemplo, nota_curta_exemplo \<lparr> timestampSec := 12 / 10 \<rparr>] 1)"

definition curta_s1 :: "Jogador \<times> Nota list" where
  "curta_s1 = processarTeclaPressJogador Key_A (12 / 10) (fst curta_s0)
     (atualizarLogicaJogador (snd curta_s0) (12 / 10))"

text \<open>
  Hit-window sessions on the short note at 1 s. Early press: the note logic runs at
  0.800001 s and A is pressed at that time. Late press after a stalled frame: the note
  logic runs at 1.1 s and A is pressed at 1.199999 s. Press outside the window: the
  note logic runs at 1.1 s and A is pressed at 1.200001 s.
\<close>

definition janela_notas_cedo :: "Nota list" where
  "janela_notas_cedo = atualizarLogicaJogador [nota_curta_exemplo] (800001 / 1000000)"

definition janela_cedo :: "Jogador \<times> Nota list" where
  "janela_cedo = processarTeclaPressJogador Key_A (800001 / 1000000) jogador1 janela_notas_cedo"

definition janela_notas_tarde :: "Nota list" where
  "janela_notas_tarde = atualizarLogicaJogador [nota_curta_exemplo] (11 / 10)"

section \<open>Properties of the rounding\<close>

text \<open>
  Rounding is monotone, exact on the numbers of the format, and idempotent; the
  exponent function \<open>lg\<close> is the floor of the binary logarithm.
\<close>

lemma rhe_of_int [simp]: "rhe (of_int n) = n"
  by (simp add: rhe_def)

lemma rhe_bounds: "\<lfloor>x\<rfloor> \<le> rhe x \<and> rhe x \<le> \<lfloor>x\<rfloor> + 1"
  by (simp add: rhe_def Let_def)

lemma rhe_mono:
  assumes "x \<le> y"
  shows "rhe x \<le> rhe y"
proof (cases "\<lfloor>x\<rfloor> = \<lfloor>y\<rfloor>")
  case True
  then show ?thesis using assms by (auto simp: rhe_def Let_def)
next
  case False
  with floor_mono [OF assms] have "\<lfloor>x\<rfloor> + 1 \<le> \<lfloor>y\<rfloor>" by simp
  then show ?thesis using rhe_bounds [of x] rhe_bounds [of y] by linarith
qed


lemma pot_le_int: "2 ^ k \<le> (n::int) \<Longrightarrow> (2::real) ^ k \<le> of_int n"
  using of_int_le_iff [where 'a = real, of "2 ^ k" n] by simp

lemma int_le_pot: "(n::int) \<le> 2 ^ k \<Longrightarrow> of_int n \<le> (2::real) ^ k"
  using of_int_le_iff [where 'a = real, of n "2 ^ k"] by simp

lemma lg_bounds:
  assumes "0 < x"
  shows "2 powi lg x \<le> x" and "x < 2 powi (lg x + 1)"
proof -
  have "2 powi lg x \<le> x \<and> x < 2 powi (lg x + 1)"
  proof (cases "1 \<le> x")
    case True
    define n where "n = \<lfloor>x\<rfloor>"
    have n1: "1 \<le> n" unfolding n_def using True by linarith
    then have n0: "0 < n" by simp
    have b1: "1 \<le> bitlen n" using n0 bitlen_eq_zero_iff [of n] bitlen_nonneg [of n] by linarith
    have l: "lg x = bitlen n - 1" using True by (simp add: lg_def n_def)
    from bitlen_bounds [OF n0] have lo: "2 ^ nat (bitlen n - 1) \<le> n" and hi: "n < 2 ^ nat (bitlen n)"
      by simp_all
    have "(2::real) ^ nat (bitlen n - 1) \<le> real_of_int n" using lo by (rule pot_le_int)
    moreover have "real_of_int n \<le> x" unfolding n_def by simp
    moreover have "(2::real) powi lg x = 2 ^ nat (bitlen n - 1)"
      using b1 by (simp add: l power_int_nonneg_exp)
    ultimately have 1: "2 powi lg x \<le> x" by linarith
    from hi have "n + 1 \<le> 2 ^ nat (bitlen n)" by simp
    then have "real_of_int (n + 1) \<le> (2::real) ^ nat (bitlen n)" by (rule int_le_pot)
    moreover have "x < real_of_int (n + 1)" unfolding n_def by linarith
    moreover have "(2::real) powi (lg x + 1) = 2 ^ nat (bitlen n)"
      using b1 by (simp add: l power_int_nonneg_exp)
    ultimately have 2: "x < 2 powi (lg x + 1)" by linarith
    from 1 2 show ?thesis ..
  next
    case False
    then have x1: "x < 1" by simp
    define c where "c = \<lceil>1 / x\<rceil>"
    have inv: "1 < 1 / x" using assms x1 by simp
    have c_hi: "1 / x \<le> of_int c" unfolding c_def by simp
    have c_lo: "of_int c - 1 < 1 / x" unfolding c_def by linarith
    have c2: "2 \<le> c" using inv c_hi by linarith
    then have n0: "0 < c - 1" by simp
    define b where "b = bitlen (c - 1)"
    have b1: "1 \<le> b" using n0 bitlen_eq_zero_iff [of "c - 1"] bitlen_nonneg [of "c - 1"]
      unfolding b_def by linarith
    have l: "lg x = - b" using False by (simp add: lg_def c_def b_def)
    from bitlen_bounds [OF n0] have lo: "2 ^ nat (b - 1) \<le> c - 1" and hi: "c - 1 < 2 ^ nat b"
      unfolding b_def by simp_all
    from hi have "c \<le> 2 ^ nat b" by simp
    then have "real_of_int c \<le> (2::real) ^ nat b" by (rule int_le_pot)
    with c_hi have "1 / x \<le> 2 ^ nat b" by linarith
    then have "1 / 2 ^ nat b \<le> x" using assms by (simp add: field_simps)
    moreover have "(2::real) powi lg x = 1 / 2 ^ nat b"
      using b1 by (simp add: l power_int_minus_divide power_int_nonneg_exp)
    ultimately have 1: "2 powi lg x \<le> x" by linarith
    have "(2::real) ^ nat (b - 1) \<le> real_of_int (c - 1)" using lo by (rule pot_le_int)
    with c_lo have "2 ^ nat (b - 1) < 1 / x" by linarith
    then have "x < 1 / 2 ^ nat (b - 1)" using assms by (simp add: field_simps)
    moreover have "2 powi (lg x + 1) = (1::real) / 2 ^ nat (b - 1)"
    proof -
      have "lg x + 1 = - (b - 1)" by (simp add: l)
      then show ?thesis using b1 by (simp only: power_int_minus_divide) (simp add: power_int_nonneg_exp)
    qed
    ultimately have 2: "x < 2 powi (lg x + 1)" by linarith
    from 1 2 show ?thesis ..
  qed
  then show "2 powi lg x \<le> x" and "x < 2 powi (lg x + 1)" by simp_all
qed

lemma pot2_less_exp: "(2::real) powi a < 2 powi b \<Longrightarrow> a < b"
proof (rule ccontr)
  assume lt: "(2::real) powi a < 2 powi b" and "\<not> a < b"
  then have "b \<le> a" by simp
  then have "(2::real) powi b \<le> 2 powi a" by (intro power_int_increasing) simp_all
  with lt show False by simp
qed

lemma lg_eqI:
  assumes "2 powi k \<le> x" and "x < 2 powi (k + 1)"
  shows "lg x = k"
proof -
  have "(0::real) < 2 powi k" by simp
  with assms(1) have x0: "0 < x" by linarith
  have "(2::real) powi lg x < 2 powi (k + 1)"
    using lg_bounds(1) [OF x0] assms(2) by linarith
  then have a: "lg x < k + 1" by (rule pot2_less_exp)
  have "(2::real) powi k < 2 powi (lg x + 1)"
    using lg_bounds(2) [OF x0] assms(1) by linarith
  then have b: "k < lg x + 1" by (rule pot2_less_exp)
  from a b show ?thesis by simp
qed


lemma expoente64_ge: "- 1074 \<le> expoente64 x"
  by (simp add: expoente64_def)

lemma expoente64_lg: "lg \<bar>x\<bar> - 52 \<le> expoente64 x"
  by (simp add: expoente64_def)

lemma expoente64_minus [simp]: "expoente64 (- x) = expoente64 x"
  by (simp add: expoente64_def)

lemma arred_zero [simp]: "arred 0 = 0"
  by (simp add: arred_def)


text \<open>Rounding on the grid of one exponent keeps the order with the points of the grid.\<close>

lemma grade_sup:
  assumes "x \<le> real_of_int m * 2 powi e"
  shows "real_of_int (rhe (x / 2 powi e)) * 2 powi e \<le> real_of_int m * 2 powi e"
proof -
  have p: "(0::real) < 2 powi e" by simp
  from assms p have "x / 2 powi e \<le> of_int m" by (simp add: pos_divide_le_eq)
  then have "rhe (x / 2 powi e) \<le> rhe (of_int m)" by (rule rhe_mono)
  then have "rhe (x / 2 powi e) \<le> m" by simp
  then have "real_of_int (rhe (x / 2 powi e)) \<le> of_int m" by (simp only: of_int_le_iff)
  then show ?thesis using p by (intro mult_right_mono) simp_all
qed

lemma grade_inf:
  assumes "real_of_int m * 2 powi e \<le> x"
  shows "real_of_int m * 2 powi e \<le> real_of_int (rhe (x / 2 powi e)) * 2 powi e"
proof -
  have p: "(0::real) < 2 powi e" by simp
  from assms p have "of_int m \<le> x / 2 powi e" by (simp add: pos_le_divide_eq)
  then have "rhe (of_int m) \<le> rhe (x / 2 powi e)" by (rule rhe_mono)
  then have "m \<le> rhe (x / 2 powi e)" by simp
  then have "real_of_int m \<le> of_int (rhe (x / 2 powi e))" by (simp only: of_int_le_iff)
  then show ?thesis using p by (intro mult_right_mono) simp_all
qed

lemma pot2_soma: "(2::real) powi (a + b) = 2 powi a * 2 powi b"
  by (rule power_int_add) simp

lemma abaixo_do_topo:
  assumes "x \<noteq> 0"
  shows "\<bar>x\<bar> < 2 powi (expoente64 x + 53)"
proof -
  have "0 < \<bar>x\<bar>" using assms by simp
  then have "\<bar>x\<bar> < 2 powi (lg \<bar>x\<bar> + 1)" by (rule lg_bounds(2))
  also have "(2::real) powi (lg \<bar>x\<bar> + 1) \<le> 2 powi (expoente64 x + 53)"
    using expoente64_lg [of x] by (intro power_int_increasing) simp_all
  finally show ?thesis .
qed






text \<open>A number \<open>m * 2 ^ e\<close> with at most 53 bits and an exponent in range is a \<^verbatim>\<open>double\<close>.\<close>

lemma arred_exato_menor:
  assumes "\<bar>m\<bar> < 2 ^ 53" and "- 1074 \<le> e"
  shows "arred (of_int m * 2 powi e) = of_int m * 2 powi e"
proof (cases "m = 0")
  case True
  then show ?thesis by simp
next
  case False
  define y :: real where "y = of_int m * 2 powi e"
  have y0: "y \<noteq> 0" using False by (simp add: y_def)
  have ay: "\<bar>y\<bar> = of_int \<bar>m\<bar> * 2 powi e" by (simp add: y_def abs_mult)
  have "real_of_int \<bar>m\<bar> < of_int (2 ^ 53)" using assms(1) by (simp only: of_int_less_iff)
  then have "\<bar>y\<bar> < 2 ^ 53 * 2 powi e" unfolding ay by (intro mult_strict_right_mono) simp_all
  then have lt: "\<bar>y\<bar> < 2 powi (e + 53)" by (simp add: pot2_soma mult.commute)
  have "0 < \<bar>y\<bar>" using y0 by simp
  then have "(2::real) powi lg \<bar>y\<bar> \<le> \<bar>y\<bar>" by (rule lg_bounds(1))
  with lt have "(2::real) powi lg \<bar>y\<bar> < 2 powi (e + 53)" by linarith
  then have "lg \<bar>y\<bar> < e + 53" by (rule pot2_less_exp)
  then have le: "expoente64 y \<le> e" using assms(2) by (simp add: expoente64_def)
  define d where "d = nat (e - expoente64 y)"
  define p :: real where "p = 2 powi expoente64 y"
  have p0: "0 < p" by (simp add: p_def)
  have ed: "expoente64 y + int d = e" using le by (simp add: d_def)
  have "(2::real) powi (expoente64 y + int d) = 2 powi expoente64 y * 2 powi int d"
    by (rule pot2_soma)
  then have pe: "(2::real) powi e = p * 2 ^ d"
    by (simp only: ed p_def power_int_of_nat)
  have yp: "y = real_of_int (m * 2 ^ d) * p"
    by (simp add: y_def pe)
  then have "y / p = real_of_int (m * 2 ^ d)" using p0 by simp
  then have "rhe (y / p) = m * 2 ^ d" by (simp only: rhe_of_int)
  then have "arred y = real_of_int (m * 2 ^ d) * p"
    using y0 by (simp add: arred_def p_def)
  then have "arred y = y" by (simp only: yp)
  then show ?thesis by (simp only: y_def)
qed

lemma arred_exato:
  assumes "\<bar>m\<bar> \<le> 2 ^ 53" and "- 1074 \<le> e"
  shows "arred (of_int m * 2 powi e) = of_int m * 2 powi e"
proof (cases "\<bar>m\<bar> < 2 ^ 53")
  case True
  then show ?thesis using assms(2) by (rule arred_exato_menor)
next
  case False
  with assms(1) have "\<bar>m\<bar> = 2 ^ 53" by simp
  then consider "m = 2 ^ 53" | "m = - (2 ^ 53)" by (auto simp: abs_if split: if_splits)
  then obtain k :: int where k: "m = 2 * k" and kb: "\<bar>k\<bar> < 2 ^ 53"
  proof cases
    case 1
    then have "m = 2 * 2 ^ 52" "\<bar>(2::int) ^ 52\<bar> < 2 ^ 53" by simp_all
    then show ?thesis by (rule that)
  next
    case 2
    then have "m = 2 * (- (2 ^ 52))" "\<bar>- ((2::int) ^ 52)\<bar> < 2 ^ 53" by simp_all
    then show ?thesis by (rule that)
  qed
  have "real_of_int m * 2 powi e = of_int k * 2 powi (e + 1)"
    by (simp add: k pot2_soma)
  moreover have "arred (of_int k * 2 powi (e + 1)) = of_int k * 2 powi (e + 1)"
    using kb assms(2) by (intro arred_exato_menor) simp_all
  ultimately show ?thesis by simp
qed

lemma arred_arred [simp]: "arred (arred x) = arred x"
proof (cases "x = 0")
  case True
  then show ?thesis by simp
next
  case False
  define e where "e = expoente64 x"
  define m where "m = rhe (x / 2 powi e)"
  have ar: "arred x = of_int m * 2 powi e" using False by (simp add: arred_def e_def m_def)
  have ab: "\<bar>x\<bar> < 2 powi (e + 53)" unfolding e_def using False by (rule abaixo_do_topo)
  have up: "x \<le> of_int (2 ^ 53) * 2 powi e" using ab by (simp add: pot2_soma mult.commute)
  have lo: "of_int (- (2 ^ 53)) * 2 powi e \<le> x" using ab by (simp add: pot2_soma mult.commute)
  have p: "(0::real) < 2 powi e" by simp
  from grade_sup [OF up] have "real_of_int m * 2 powi e \<le> of_int (2 ^ 53) * 2 powi e"
    by (simp only: m_def)
  then have "real_of_int m \<le> of_int (2 ^ 53)" using p by (simp only: mult_le_cancel_right_pos)
  then have m1: "m \<le> 2 ^ 53" by (simp only: of_int_le_iff)
  from grade_inf [OF lo] have "of_int (- (2 ^ 53)) * 2 powi e \<le> real_of_int m * 2 powi e"
    by (simp only: m_def)
  then have "real_of_int (- (2 ^ 53)) \<le> of_int m" using p by (simp only: mult_le_cancel_right_pos)
  then have m2: "- (2 ^ 53) \<le> m" by (simp only: of_int_le_iff)
  from m1 m2 have "\<bar>m\<bar> \<le> 2 ^ 53" by simp
  moreover have "- 1074 \<le> e" unfolding e_def by (rule expoente64_ge)
  ultimately show ?thesis unfolding ar by (rule arred_exato)
qed

lemma arred_calc:
  assumes "2 powi (e + 52) \<le> \<bar>x\<bar>" and "\<bar>x\<bar> < 2 powi (e + 53)" and "- 1074 \<le> e"
  shows "arred x = of_int (rhe (x / 2 powi e)) * 2 powi e"
proof -
  have "(0::real) < 2 powi (e + 52)" by simp
  with assms(1) have "0 < \<bar>x\<bar>" by linarith
  then have x0: "x \<noteq> 0" by simp
  have "e + 52 + 1 = e + 53" by simp
  with assms(2) have "\<bar>x\<bar> < 2 powi (e + 52 + 1)" by (simp only:)
  with assms(1) have "lg \<bar>x\<bar> = e + 52" by (rule lg_eqI)
  then have "expoente64 x = e" using assms(3) by (simp add: expoente64_def)
  then show ?thesis using x0 by (simp add: arred_def)
qed


lemma para_double_valido: "valido (para_double x)"
  by (auto simp: para_double_def Let_def)

lemma para_double_exato: "valido (Finito x) \<Longrightarrow> para_double x = Finito x"
  by (simp add: para_double_def)

lemma soma64_zero [simp]: "soma64 (Finito 0) d = d"
  by (cases d) simp_all

lemma soma64_arredonda:
  assumes "valido (Finito x)" and "valido (Finito y)"
  shows "soma64 (Finito x) (Finito y) = para_double (x + y)"
  using assms by (auto simp: para_double_def)

section \<open>Properties of the tempo calculator\<close>



lemma duracao_zero [simp]: "duracao chart ev 0 = 0"
  by (simp add: duracao_def)




lemma laco_resolucao_zero:
  "resolucao chart = 0 \<Longrightarrow>
   ticksParaSegundos_laco chart t evs tempo tickAtual
     = Inr (soma64 (Finito tempo) (offset chart))"
  by (cases evs) (simp_all add: Let_def)


lemma laco_para_antes:
  "resolucao chart \<noteq> 0 \<Longrightarrow> tickAtual < a \<Longrightarrow>
   a \<le> (case r of [] \<Rightarrow> INT_MAX | prox # _ \<Rightarrow> tick prox) \<Longrightarrow>
   ticksParaSegundos_laco chart a (ev # r) tempo tickAtual =
     Inr (soma64 (Finito (arred (tempo + duracao chart ev (a - tickAtual)))) (offset chart))"
  by (subst ticksParaSegundos_laco.simps)
    (simp add: Let_def dividir_def segundosPorTick_def duracao_def min_def
      del: ticksParaSegundos_laco.simps)

lemma laco_para_no_tick:
  "resolucao chart \<noteq> 0 \<Longrightarrow> arred tempo = tempo \<Longrightarrow>
   a \<le> (case r of [] \<Rightarrow> INT_MAX | prox # _ \<Rightarrow> tick prox) \<Longrightarrow>
   ticksParaSegundos_laco chart a (ev # r) tempo a =
     Inr (soma64 (Finito tempo) (offset chart))"
  by (subst ticksParaSegundos_laco.simps)
    (simp add: Let_def dividir_def min_def del: ticksParaSegundos_laco.simps)

lemma laco_para:
  assumes "resolucao chart \<noteq> 0" and "tickAtual \<le> a"
    and "a \<le> (case r of [] \<Rightarrow> INT_MAX | prox # _ \<Rightarrow> tick prox)"
    and "arred tempo = tempo"
  shows "ticksParaSegundos_laco chart a (ev # r) tempo tickAtual =
     Inr (soma64 (Finito (arred (tempo + duracao chart ev (a - tickAtual)))) (offset chart))"
proof (cases "tickAtual = a")
  case True
  with laco_para_no_tick [OF assms(1,4,3)] assms(4) show ?thesis by simp
next
  case False
  with assms(2) have "tickAtual < a" by simp
  with assms(1) show ?thesis using assms(3) by (rule laco_para_antes)
qed

lemma laco_tick_zero:
  "ticksParaSegundos_laco chart 0 (ev # r) 0 0 = Inr (offset chart)"
  by (simp add: Let_def dividir_def min_def split: list.splits)

declare ticksParaSegundos_laco.simps(2) [simp del]






lemma init_referencia [simp]: "referenciaChart (CalculadoraTempo_init chart) = chart"
  by (simp add: CalculadoraTempo_init_def Let_def)

text \<open>
  The fallible division is guarded in every case: the loop never ends in an error.
\<close>

lemma laco_nunca_falha:
  "\<exists>x. ticksParaSegundos_laco chart t evs tempo tickAtual = Inr x"
proof (induction evs arbitrary: tempo tickAtual)
  case Nil
  show ?case by simp
next
  case (Cons ev evs)
  show ?case
    using Cons.IH
    by (subst ticksParaSegundos_laco.simps) (simp add: Let_def dividir_def)
qed

section \<open>Properties of the parser\<close>

subsection \<open>The map insertion\<close>

lemma map_emplace_keys: "set (map fst (map_emplace k v m)) = insert k (set (map fst m))"
proof (induction m)
  case Nil
  show ?case by simp
next
  case (Cons p m)
  obtain k' v' where p: "p = (k', v')" by (cases p)
  show ?case using Cons.IH by (auto simp: p)
qed


lemma map_emplace_ordenado:
  "mapa_ordenado m \<Longrightarrow> mapa_ordenado (map_emplace k v m)"
  unfolding mapa_ordenado_def
proof (induction m)
  case Nil
  show ?case by simp
next
  case (Cons p m)
  obtain k' v' where p: "p = (k', v')" by (cases p)
  from Cons.prems p have gt: "\<forall>x \<in> set (map fst m). k' < x"
    and sm: "sorted_wrt (<) (map fst m)" by simp_all
  consider "k < k'" | "k = k'" | "k' < k" by linarith
  then show ?case
  proof cases
    case 1
    with gt have "\<forall>x \<in> set (map fst m). k < x" by fastforce
    with 1 gt sm show ?thesis by (simp add: p)
  next
    case 2
    with Cons.prems show ?thesis by (simp add: p)
  next
    case 3
    have "\<forall>x \<in> set (map fst (map_emplace k v m)). k' < x"
      unfolding map_emplace_keys using gt 3 by simp
    moreover have "sorted_wrt (<) (map fst (map_emplace k v m))"
      using Cons.IH sm by simp
    ultimately show ?thesis using 3 by (simp add: p)
  qed
qed

lemma map_of_sorted_None:
  "sorted_wrt (<) (map fst ((k', v') # m)) \<Longrightarrow> k < k' \<Longrightarrow> map_of ((k', v') # m) (k::int) = None"
  by (fastforce simp: map_of_eq_None_iff image_iff)

lemma map_of_emplace:
  "mapa_ordenado m \<Longrightarrow>
   map_of (map_emplace k v m) k' =
     (if k' = k then (case map_of m k of None \<Rightarrow> Some v | Some e \<Rightarrow> Some e) else map_of m k')"
  unfolding mapa_ordenado_def
proof (induction m)
  case Nil
  show ?case by simp
next
  case (Cons p m)
  obtain k0 v0 where p: "p = (k0, v0)" by (cases p)
  show ?case
  proof (cases "k < k0")
    case True
    have "map_of ((k0, v0) # m) k = None"
      using Cons.prems p True by (intro map_of_sorted_None) simp_all
    with True p show ?thesis by auto
  next
    case False
    with Cons p show ?thesis by auto
  qed
qed

lemma mapa_ordenado_unico:
  "mapa_ordenado m \<Longrightarrow> map_of m k = Some e \<Longrightarrow> length (filter (\<lambda>p. fst p = k) m) = 1"
  unfolding mapa_ordenado_def
proof (induction m)
  case Nil
  then show ?case by simp
next
  case (Cons p m)
  obtain k0 v0 where p: "p = (k0, v0)" by (cases p)
  show ?case
  proof (cases "k0 = k")
    case True
    have "\<forall>q \<in> set m. fst q \<noteq> k" using Cons.prems p True by auto
    then have "filter (\<lambda>p. fst p = k) m = []" by (simp add: filter_empty_conv)
    with p True show ?thesis by simp
  next
    case False
    with Cons p show ?thesis by auto
  qed
qed

subsection \<open>Conversions and matches\<close>









subsection \<open>One line\<close>

lemma song_outros_campos:
  "processarLinhaSong ponto chart l = Inr chart' \<Longrightarrow>
   mudancasTempo chart' = mudancasTempo chart \<and> assinaturasTempo chart' = assinaturasTempo chart"
  unfolding processarLinhaSong_def
  by (simp add: Let_def split: option.splits prod.splits if_splits sum.splits) auto

lemma song_resolucao:
  "processarLinhaSong ponto chart l = Inr chart' \<Longrightarrow>
   map_option fst (match_padraoChaveValor l) \<noteq> Some ''Resolution'' \<Longrightarrow>
   resolucao chart' = resolucao chart"
  unfolding processarLinhaSong_def
  by (simp add: Let_def split: option.splits prod.splits if_splits sum.splits) auto

lemma converteE: "converte r \<Longrightarrow> \<exists>x. r = Inr x"
  by (cases r) (simp_all add: converte_def)

lemma song_ok:
  assumes "campos_numericos_ok ponto ''Song'' l"
  shows "\<exists>chart'. processarLinhaSong ponto chart l = Inr chart'"
proof (cases "match_padraoChaveValor l")
  case None
  then show ?thesis by (simp add: processarLinhaSong_def)
next
  case (Some p)
  obtain chave valor where p: "p = (chave, valor)" by (cases p)
  have d: "\<exists>x. stod ponto (tirarAspas valor) = Inr x"
    if "chave = ''Offset'' \<or> chave = ''PreviewStart'' \<or> chave = ''PreviewEnd''"
    using assms Some p that by (intro converteE) (auto simp: campos_numericos_ok_def)
  have i: "\<exists>x. stoi (tirarAspas valor) = Inr x"
    if "chave = ''Resolution'' \<or> chave = ''Difficulty''"
    using assms Some p that by (intro converteE) (auto simp: campos_numericos_ok_def)
  show ?thesis
    unfolding processarLinhaSong_def Some p
    using d i by (simp add: Let_def) (metis sum.simps(6))
qed

lemma sync_campos:
  "processarLinhaSyncTrack chart l = Inr chart' \<Longrightarrow>
   resolucao chart' = resolucao chart
   \<and> mudancasTempo chart' =
       (case evento_tempo_da_linha (''SyncTrack'', l) of
          None \<Rightarrow> mudancasTempo chart
        | Some ev \<Rightarrow> map_emplace (tick ev) ev (mudancasTempo chart))
   \<and> assinaturasTempo chart' =
       (case assinatura_da_linha (''SyncTrack'', l) of
          None \<Rightarrow> assinaturasTempo chart
        | Some a \<Rightarrow> map_emplace (tickAssinatura a) a (assinaturasTempo chart))"
  unfolding processarLinhaSyncTrack_def evento_tempo_da_linha_def assinatura_da_linha_def
  by (simp add: Let_def split: option.splits prod.splits sum.splits) auto

lemma sync_ok:
  assumes "campos_numericos_ok ponto ''SyncTrack'' l"
  shows "\<exists>chart'. processarLinhaSyncTrack chart l = Inr chart'"
proof (cases "match_padraoTempo l")
  case (Some p)
  obtain g1 g2 where p: "p = (g1, g2)" by (cases p)
  from assms Some p obtain t v where "stoi g1 = Inr t" "stoi g2 = Inr v"
    by (auto simp: campos_numericos_ok_def dest!: converteE)
  with Some p show ?thesis by (simp add: processarLinhaSyncTrack_def)
next
  case None
  note nt = this
  show ?thesis
  proof (cases "match_padraoAssinaturaTempo l")
    case None
    with nt show ?thesis by (simp add: processarLinhaSyncTrack_def)
  next
    case (Some q)
    obtain g1 g2 g3 where q: "q = (g1, g2, g3)" by (cases q)
    from assms nt Some q obtain t n where tn: "stoi g1 = Inr t" "stoi g2 = Inr n"
      by (auto simp: campos_numericos_ok_def dest!: converteE)
    from assms nt Some q have "\<exists>den. (case g3 of None \<Rightarrow> Inr 4 | Some d \<Rightarrow> stoi d) = Inr den"
      by (cases g3) (auto simp: campos_numericos_ok_def dest!: converteE)
    then obtain den where "(case g3 of None \<Rightarrow> Inr 4 | Some d \<Rightarrow> stoi d) = Inr den" ..
    with nt Some q tn show ?thesis by (simp add: processarLinhaSyncTrack_def)
  qed
qed

lemma notas_campos:
  "processarLinhaNotas chart l = Inr chart' \<Longrightarrow>
   resolucao chart' = resolucao chart \<and> mudancasTempo chart' = mudancasTempo chart
   \<and> assinaturasTempo chart' = assinaturasTempo chart"
  unfolding processarLinhaNotas_def
  by (simp add: Let_def split: option.splits prod.splits sum.splits) auto

lemma notas_ok:
  assumes "campos_numericos_ok ponto secao l"
    and "secao = ''ExpertSingle'' \<or> secao = ''HardSingle'' \<or> secao = ''MediumSingle''
         \<or> secao = ''EasySingle''"
  shows "\<exists>chart'. processarLinhaNotas chart l = Inr chart'"
proof (cases "match_padraoNota l")
  case None
  then show ?thesis by (simp add: processarLinhaNotas_def)
next
  case (Some q)
  obtain g1 g2 g3 where q: "q = (g1, g2, g3)" by (cases q)
  from assms Some q obtain t tr c where "stoi g1 = Inr t" "stoi g2 = Inr tr" "stoi g3 = Inr c"
    by (auto simp: campos_numericos_ok_def dest!: converteE)
  with Some q show ?thesis by (simp add: processarLinhaNotas_def)
qed

lemma passo_campos:
  assumes "processarLinhaNaSecao ponto chart sec l = Inr chart'"
  shows "mudancasTempo chart' =
           (case evento_tempo_da_linha (sec, l) of
              None \<Rightarrow> mudancasTempo chart
            | Some ev \<Rightarrow> map_emplace (tick ev) ev (mudancasTempo chart))"
    and "assinaturasTempo chart' =
           (case assinatura_da_linha (sec, l) of
              None \<Rightarrow> assinaturasTempo chart
            | Some a \<Rightarrow> map_emplace (tickAssinatura a) a (assinaturasTempo chart))"
    and "chave_da_linha (sec, l) \<noteq> Some ''Resolution'' \<Longrightarrow> resolucao chart' = resolucao chart"
proof -
  consider (song) "sec = ''Song''" | (sync) "sec = ''SyncTrack''"
    | (notas) "sec \<noteq> ''Song''" "sec \<noteq> ''SyncTrack''"
        "sec = ''ExpertSingle'' \<or> sec = ''HardSingle'' \<or> sec = ''MediumSingle''
         \<or> sec = ''EasySingle''"
    | (outra) "sec \<noteq> ''Song''" "sec \<noteq> ''SyncTrack''"
        "\<not> (sec = ''ExpertSingle'' \<or> sec = ''HardSingle'' \<or> sec = ''MediumSingle''
            \<or> sec = ''EasySingle'')"
    by blast
  then have "mudancasTempo chart' =
           (case evento_tempo_da_linha (sec, l) of
              None \<Rightarrow> mudancasTempo chart
            | Some ev \<Rightarrow> map_emplace (tick ev) ev (mudancasTempo chart))
     \<and> assinaturasTempo chart' =
           (case assinatura_da_linha (sec, l) of
              None \<Rightarrow> assinaturasTempo chart
            | Some a \<Rightarrow> map_emplace (tickAssinatura a) a (assinaturasTempo chart))
     \<and> (chave_da_linha (sec, l) \<noteq> Some ''Resolution'' \<longrightarrow> resolucao chart' = resolucao chart)"
  proof cases
    case song
    with assms have s: "processarLinhaSong ponto chart l = Inr chart'"
      by (simp add: processarLinhaNaSecao_def)
    from song_outros_campos [OF s] song_resolucao [OF s] song show ?thesis
      by (simp add: evento_tempo_da_linha_def assinatura_da_linha_def chave_da_linha_def)
  next
    case sync
    with assms have s: "processarLinhaSyncTrack chart l = Inr chart'"
      by (simp add: processarLinhaNaSecao_def)
    from sync_campos [OF s] sync show ?thesis by simp
  next
    case notas
    with assms have s: "processarLinhaNotas chart l = Inr chart'"
      by (auto simp: processarLinhaNaSecao_def)
    from notas_campos [OF s] notas show ?thesis
      by (simp add: evento_tempo_da_linha_def assinatura_da_linha_def)
  next
    case outra
    with assms have "chart' = chart"
      by (simp add: processarLinhaNaSecao_def)
    with outra show ?thesis
      by (simp add: evento_tempo_da_linha_def assinatura_da_linha_def)
  qed
  then show "mudancasTempo chart' =
           (case evento_tempo_da_linha (sec, l) of
              None \<Rightarrow> mudancasTempo chart
            | Some ev \<Rightarrow> map_emplace (tick ev) ev (mudancasTempo chart))"
    and "assinaturasTempo chart' =
           (case assinatura_da_linha (sec, l) of
              None \<Rightarrow> assinaturasTempo chart
            | Some a \<Rightarrow> map_emplace (tickAssinatura a) a (assinaturasTempo chart))"
    and "chave_da_linha (sec, l) \<noteq> Some ''Resolution'' \<Longrightarrow> resolucao chart' = resolucao chart"
    by simp_all
qed

lemma passo_ok:
  assumes "campos_numericos_ok ponto sec l"
  shows "\<exists>chart'. processarLinhaNaSecao ponto chart sec l = Inr chart'"
proof -
  consider (song) "sec = ''Song''" | (sync) "sec = ''SyncTrack''"
    | (notas) "sec \<noteq> ''Song''" "sec \<noteq> ''SyncTrack''"
        "sec = ''ExpertSingle'' \<or> sec = ''HardSingle'' \<or> sec = ''MediumSingle''
         \<or> sec = ''EasySingle''"
    | (outra) "sec \<noteq> ''Song''" "sec \<noteq> ''SyncTrack''"
        "\<not> (sec = ''ExpertSingle'' \<or> sec = ''HardSingle'' \<or> sec = ''MediumSingle''
            \<or> sec = ''EasySingle'')"
    by blast
  then show ?thesis
  proof cases
    case song
    with assms song_ok [of ponto l chart] show ?thesis by (simp add: processarLinhaNaSecao_def)
  next
    case sync
    with assms sync_ok [of ponto l chart] show ?thesis by (simp add: processarLinhaNaSecao_def)
  next
    case notas
    with assms notas_ok [of ponto sec l chart] show ?thesis
      by (auto simp: processarLinhaNaSecao_def)
  next
    case outra
    then show ?thesis by (simp add: processarLinhaNaSecao_def)
  qed
qed













subsection \<open>The lines of a file\<close>

lemma processarLinhas_pares:
  "processarLinhas ponto chart sec ls = processarPares ponto chart (linhasDasSecoes sec ls)"
  by (induction ls arbitrary: chart sec) (auto split: acao_linha.splits sum.splits)

lemma getlines_vazio: "getlines [] [] = []"
  by simp

lemma parsing_pares:
  "fazerParsingChart ponto arquivo =
     (if lerArquivoUtf8 arquivo = [] then Inr None
      else (case processarPares ponto DadosChart_inicial (linhasDoArquivo arquivo) of
              Inl e \<Rightarrow> Inl e
            | Inr d \<Rightarrow> Inr (Some (d \<lparr> notas := sort_key tickNota (notas d) \<rparr>))))"
  by (simp add: fazerParsingChart_def linhasDoArquivo_def processarLinhas_pares Let_def)



lemma pares_ok:
  "\<forall>p \<in> set ps. campos_numericos_ok ponto (fst p) (snd p) \<Longrightarrow>
   \<exists>d. processarPares ponto chart ps = Inr d"
proof (induction ps arbitrary: chart)
  case Nil
  show ?case by simp
next
  case (Cons p ps)
  obtain s0 l0 where p: "p = (s0, l0)" by (cases p)
  from Cons.prems p obtain c' where c': "processarLinhaNaSecao ponto chart s0 l0 = Inr c'"
    using passo_ok [of ponto s0 l0 chart] by auto
  from Cons.prems have "\<exists>d. processarPares ponto c' ps = Inr d" by (intro Cons.IH) simp
  with c' show ?case by (simp add: p)
qed

lemma pares_resolucao:
  "processarPares ponto chart ps = Inr d \<Longrightarrow>
   \<forall>p \<in> set ps. chave_da_linha p \<noteq> Some ''Resolution'' \<Longrightarrow> resolucao d = resolucao chart"
proof (induction ps arbitrary: chart)
  case Nil
  then show ?case by simp
next
  case (Cons p ps)
  obtain s0 l0 where p: "p = (s0, l0)" by (cases p)
  from Cons.prems(1) p obtain c' where c': "processarLinhaNaSecao ponto chart s0 l0 = Inr c'"
    and r: "processarPares ponto c' ps = Inr d"
    by (auto split: sum.splits)
  have "resolucao c' = resolucao chart"
    using passo_campos(3) [OF c'] Cons.prems(2) p by simp
  moreover have "resolucao d = resolucao c'"
    using r Cons.prems(2) by (intro Cons.IH) simp_all
  ultimately show ?case by simp
qed

subsection \<open>Maps filled line by line\<close>

lemma aplicar_linhas_append:
  "aplicar_linhas f chave m (xs @ ys) = aplicar_linhas f chave (aplicar_linhas f chave m xs) ys"
  by (induction xs arbitrary: m) simp_all

lemma aplicar_linhas_ordenado:
  "mapa_ordenado m \<Longrightarrow> mapa_ordenado (aplicar_linhas f chave m ps)"
proof (induction ps arbitrary: m)
  case Nil
  then show ?case by simp
next
  case (Cons p ps)
  have "mapa_ordenado (case f p of None \<Rightarrow> m | Some x \<Rightarrow> map_emplace (chave x) x m)"
    using Cons.prems by (simp add: map_emplace_ordenado split: option.splits)
  then show ?case using Cons.IH by simp
qed


lemma aplicar_linhas_mantem:
  "mapa_ordenado m \<Longrightarrow> map_of m k = Some e \<Longrightarrow>
   map_of (aplicar_linhas f chave m ps) k = Some e"
proof (induction ps arbitrary: m)
  case Nil
  then show ?case by simp
next
  case (Cons p ps)
  let ?m = "case f p of None \<Rightarrow> m | Some x \<Rightarrow> map_emplace (chave x) x m"
  have "mapa_ordenado ?m"
    using Cons.prems(1) by (simp add: map_emplace_ordenado split: option.splits)
  moreover have "map_of ?m k = Some e"
    using Cons.prems by (auto simp: map_of_emplace split: option.splits)
  ultimately show ?case using Cons.IH by simp
qed

lemma aplicar_linhas_ausente:
  "mapa_ordenado m \<Longrightarrow> map_of m k = None \<Longrightarrow>
   \<forall>p \<in> set ps. \<forall>x. f p = Some x \<longrightarrow> chave x \<noteq> k \<Longrightarrow>
   map_of (aplicar_linhas f chave m ps) k = None"
proof (induction ps arbitrary: m)
  case Nil
  then show ?case by simp
next
  case (Cons p ps)
  let ?m = "case f p of None \<Rightarrow> m | Some x \<Rightarrow> map_emplace (chave x) x m"
  have "mapa_ordenado ?m"
    using Cons.prems(1) by (simp add: map_emplace_ordenado split: option.splits)
  moreover have "map_of ?m k = None"
    using Cons.prems by (auto simp: map_of_emplace split: option.splits)
  ultimately show ?case using Cons.IH Cons.prems(3) by simp
qed

lemma primeiro_vence:
  assumes "mapa_ordenado m" and "map_of m k = None"
    and "\<forall>p \<in> set antes. \<forall>x. f p = Some x \<longrightarrow> chave x \<noteq> k"
    and "f par = Some x" and "chave x = k"
  shows "map_of (aplicar_linhas f chave m (antes @ par # depois)) k = Some x"
proof -
  let ?m1 = "aplicar_linhas f chave m antes"
  have o1: "mapa_ordenado ?m1" using assms(1) by (rule aplicar_linhas_ordenado)
  have n1: "map_of ?m1 k = None" using assms(1,2,3) by (rule aplicar_linhas_ausente)
  let ?m2 = "map_emplace (chave x) x ?m1"
  have o2: "mapa_ordenado ?m2" using o1 by (rule map_emplace_ordenado)
  have s2: "map_of ?m2 k = Some x" using o1 n1 assms(5) by (simp add: map_of_emplace)
  have "map_of (aplicar_linhas f chave ?m2 depois) k = Some x"
    using o2 s2 by (rule aplicar_linhas_mantem)
  then show ?thesis by (simp add: aplicar_linhas_append assms(4))
qed

lemma pares_mapas:
  "processarPares ponto chart ps = Inr d \<Longrightarrow>
   mudancasTempo d = aplicar_linhas evento_tempo_da_linha tick (mudancasTempo chart) ps
   \<and> assinaturasTempo d
       = aplicar_linhas assinatura_da_linha tickAssinatura (assinaturasTempo chart) ps"
proof (induction ps arbitrary: chart)
  case Nil
  then show ?case by simp
next
  case (Cons p ps)
  obtain s0 l0 where p: "p = (s0, l0)" by (cases p)
  from Cons.prems p obtain c' where c': "processarLinhaNaSecao ponto chart s0 l0 = Inr c'"
    and r: "processarPares ponto c' ps = Inr d"
    by (auto split: sum.splits)
  from Cons.IH [OF r] passo_campos(1,2) [OF c'] show ?case by (simp add: p)
qed

lemma parsing_sucesso:
  assumes "fazerParsingChart ponto arquivo = Inr (Some d)"
  obtains d0 where "processarPares ponto DadosChart_inicial (linhasDoArquivo arquivo) = Inr d0"
    and "d = d0 \<lparr> notas := sort_key tickNota (notas d0) \<rparr>"
  using assms unfolding parsing_pares by (auto split: if_splits sum.splits)

lemma parsing_mapas:
  assumes "fazerParsingChart ponto arquivo = Inr (Some d)"
  shows "mudancasTempo d = aplicar_linhas evento_tempo_da_linha tick [] (linhasDoArquivo arquivo)"
    and "assinaturasTempo d
           = aplicar_linhas assinatura_da_linha tickAssinatura [] (linhasDoArquivo arquivo)"
proof -
  from assms obtain d0
    where p: "processarPares ponto DadosChart_inicial (linhasDoArquivo arquivo) = Inr d0"
      and d: "d = d0 \<lparr> notas := sort_key tickNota (notas d0) \<rparr>"
    by (rule parsing_sucesso)
  from pares_mapas [OF p] d
  show "mudancasTempo d = aplicar_linhas evento_tempo_da_linha tick [] (linhasDoArquivo arquivo)"
    and "assinaturasTempo d
           = aplicar_linhas assinatura_da_linha tickAssinatura [] (linhasDoArquivo arquivo)"
    by (simp_all add: DadosChart_inicial_def)
qed


lemma processarPares_append:
  "processarPares ponto chart (xs @ ys) =
     (case processarPares ponto chart xs of Inl e \<Rightarrow> Inl e | Inr c \<Rightarrow> processarPares ponto c ys)"
proof (induction xs arbitrary: chart)
  case Nil
  show ?case by simp
next
  case (Cons p xs)
  obtain s0 l0 where p: "p = (s0, l0)" by (cases p)
  show ?case by (simp add: p Cons.IH split: sum.splits)
qed

lemma primeira_falha:
  assumes "list_all (\<lambda>p. campos_numericos_ok ponto (fst p) (snd p)) antes"
    and "\<And>c. processarLinhaNaSecao ponto c sec l = Inl e"
  shows "processarPares ponto chart (antes @ (sec, l) # depois) = Inl e"
proof -
  from assms(1) obtain c where "processarPares ponto chart antes = Inr c"
    using pares_ok [where ps = antes and chart = chart and ponto = ponto] by (auto simp: list_all_iff)
  then show ?thesis by (simp add: processarPares_append assms(2))
qed



subsection \<open>The example files\<close>

lemmas char_defs = is_trim_def is_space_def is_digit_def digito_def is_dot_def

lemmas match_defs = match_padraoSecao_def match_padraoChaveValor_def cv_valor_def cv_resto_def
  cabecalho_evento_def match_padraoTempo_def match_padraoAssinaturaTempo_def match_padraoNota_def

lemmas conversao_defs = stoi_def sem_sinal_def negativo_def valor_digitos_def
  INT_MAX_def INT_MIN_def

text \<open>
  Conversions that do not depend on the decimal point: of a text without a digit, and
  of the text \<^verbatim>\<open>0\<close>.
\<close>

lemma sem_digito_nao_comeca:
  assumes "\<forall>c \<in> set r. \<not> dig c"
  shows "\<not> comeca_numero dig ponto r"
proof
  assume c: "comeca_numero dig ponto r"
  have a: "\<not> (case r of [] \<Rightarrow> False | c # _ \<Rightarrow> dig c)"
    using assms by (cases r) simp_all
  have b: "\<not> (case apos_ponto ponto r of
                None \<Rightarrow> False
              | Some cs \<Rightarrow> (case cs of [] \<Rightarrow> False | d # _ \<Rightarrow> dig d))"
  proof (cases "apos_ponto ponto r")
    case None
    then show ?thesis by simp
  next
    case (Some cs)
    then have cs: "cs = drop (length ponto) r"
      by (simp add: apos_ponto_def split: if_splits)
    show ?thesis
    proof (cases cs)
      case Nil
      with Some show ?thesis by simp
    next
      case (Cons d ds)
      with cs have "d \<in> set (drop (length ponto) r)" by (metis list.set_intros(1))
      then have "d \<in> set r" by (rule in_set_dropD)
      with assms have "\<not> dig d" by simp
      with Some Cons show ?thesis by simp
    qed
  qed
  from c a b show False by (simp add: comeca_numero_def)
qed

lemma stod_nan: "stod ponto ''nan'' = Inr NaN"
proof -
  have "\<not> comeca_numero is_digit ponto ''nan''"
    by (rule sem_digito_nao_comeca) (simp add: char_defs)
  then show ?thesis
    by (simp add: stod_def sem_sinal_def eh_hexadecimal_def minuscula_def is_space_def)
qed

lemma stod_zero: "stod ponto ''0'' = Inr (Finito 0)"
  by (simp add: stod_def sem_sinal_def negativo_def eh_hexadecimal_def comeca_numero_def
      valor_decimal_def partes_def apos_ponto_def expoente_def potencia_def valor_digitos_def
      numero64_def char_defs)

lemmas linha_defs = processarLinhaNaSecao_def processarLinhaSong_def processarLinhaSyncTrack_def
  processarLinhaNotas_def tirarAspas_def

lemmas arquivo_defs = linhasDoArquivo_def lerArquivoUtf8_def classificarLinha_def trim_def

lemma linhas_arquivo_exemplo:
  "linhasDoArquivo (Some arquivo_exemplo) =
     [(''Song'', ''Name = '' @ [CHR 0x22] @ ''Riff'' @ [CHR 0x22]), (''Song'', ''Offset = 0''),
      (''SyncTrack'', ''0 = B 120000''), (''SyncTrack'', ''0 = TS 4''),
      (''SyncTrack'', ''384 = B 150000''), (''ExpertSingle'', ''192 = N 0 0'')]"
  by (simp add: arquivo_exemplo_def arquivo_defs match_padraoSecao_def char_defs)


lemma linhas_arquivo_tempo_duplicado:
  "linhasDoArquivo (Some arquivo_tempo_duplicado) =
     [(''SyncTrack'', ''0 = B 120000''), (''SyncTrack'', ''0 = TS 4''),
      (''SyncTrack'', ''0 = B 150000''), (''SyncTrack'', ''0 = TS 3 8'')]"
  by (simp add: arquivo_tempo_duplicado_def arquivo_defs match_padraoSecao_def char_defs)

lemma eventos_arquivo_tempo_duplicado:
  "evento_tempo_da_linha (''SyncTrack'', ''0 = B 120000'') = Some \<lparr> tick = 0, valorBruto = 120000 \<rparr>"
  "evento_tempo_da_linha (''SyncTrack'', ''0 = B 150000'') = Some \<lparr> tick = 0, valorBruto = 150000 \<rparr>"
  "evento_tempo_da_linha (''SyncTrack'', ''0 = TS 4'') = None"
  "evento_tempo_da_linha (''SyncTrack'', ''0 = TS 3 8'') = None"
  "assinatura_da_linha (''SyncTrack'', ''0 = B 120000'') = None"
  "assinatura_da_linha (''SyncTrack'', ''0 = TS 4'')
     = Some \<lparr> tickAssinatura = 0, numerador = 4, denominador = 4 \<rparr>"
  "assinatura_da_linha (''SyncTrack'', ''0 = TS 3 8'')
     = Some \<lparr> tickAssinatura = 0, numerador = 3, denominador = 8 \<rparr>"
  by (simp_all add: evento_tempo_da_linha_def assinatura_da_linha_def match_defs char_defs
      conversao_defs Let_def)

lemma parsing_arquivo_tempo_duplicado:
  "fazerParsingChart ponto (Some arquivo_tempo_duplicado) =
     Inr (Some (DadosChart_inicial
       \<lparr> mudancasTempo := [(0, \<lparr> tick = 0, valorBruto = 120000 \<rparr>)],
         assinaturasTempo := [(0, \<lparr> tickAssinatura = 0, numerador = 4, denominador = 4 \<rparr>)] \<rparr>))"
  unfolding parsing_pares linhas_arquivo_tempo_duplicado
  by (simp add: lerArquivoUtf8_def arquivo_tempo_duplicado_def linha_defs match_defs char_defs
      conversao_defs Let_def DadosChart_inicial_def)






lemma campos_arquivo_exemplo:
  "list_all (\<lambda>p. campos_numericos_ok ponto (fst p) (snd p)
                   \<and> chave_da_linha p \<noteq> Some ''Resolution'')
     (linhasDoArquivo (Some arquivo_exemplo))"
  unfolding linhas_arquivo_exemplo
  by (simp add: campos_numericos_ok_def chave_da_linha_def converte_def match_defs
      char_defs conversao_defs stod_zero tirarAspas_def Let_def)

lemma linhas_arquivo_offset_nan:
  "linhasDoArquivo (Some arquivo_offset_nan) =
     [(''Song'', ''Offset = nan''), (''SyncTrack'', ''0 = B 120000'')]"
  by (simp add: arquivo_offset_nan_def arquivo_defs match_padraoSecao_def char_defs)

lemma parsing_arquivo_offset_nan:
  "fazerParsingChart ponto (Some arquivo_offset_nan) = Inr (Some chart_do_arquivo_offset_nan)"
  unfolding parsing_pares linhas_arquivo_offset_nan
  by (simp add: lerArquivoUtf8_def arquivo_offset_nan_def linha_defs match_defs char_defs
      conversao_defs stod_nan Let_def DadosChart_inicial_def chart_do_arquivo_offset_nan_def)

section \<open>Claims on the tempo calculator\<close>

lemma mpb_120: "obterMicrossegundosPorBatida \<lparr> tick = 0, valorBruto = 120000 \<rparr> = 500000"
  by code_simp


text \<open>
  Claim C9. With a resolution of zero the division by the resolution is never reached:
  for every chart, every target tick and every state of the loop the conversion returns
  the seconds accumulated so far plus the offset, which from the start of
  \<^verbatim>\<open>ticksParaSegundos\<close> is \<open>0 + offset\<close>; no \<open>DivisaoPorZero\<close> can result.
\<close>

theorem ticksParaSegundos_resolucao_zero:
  assumes "resolucao (referenciaChart calc) = 0"
  shows "ticksParaSegundos_laco (referenciaChart calc) t evs tempo tickAtual
           = Inr (soma64 (Finito tempo) (offset (referenciaChart calc)))
       \<and> ticksParaSegundos calc t = Inr (soma64 (Finito 0) (offset (referenciaChart calc)))"
  using assms by (simp only: ticksParaSegundos_def laco_resolucao_zero simp_thms)

theorem ticksParaSegundos_resolucao_zero_witness:
  "resolucao (referenciaChart (CalculadoraTempo_init chart_resolucao_zero)) = 0
   \<and> ticksParaSegundos (CalculadoraTempo_init chart_resolucao_zero) 192 = Inr (Finito (1 / 4))"
proof -
  have h: "resolucao (referenciaChart (CalculadoraTempo_init chart_resolucao_zero)) = 0"
    by (simp add: chart_resolucao_zero_def)
  have "offset (referenciaChart (CalculadoraTempo_init chart_resolucao_zero)) = Finito (1 / 4)"
    by (simp add: chart_resolucao_zero_def)
  with ticksParaSegundos_resolucao_zero [OF h, of 192 "[]" 0 0] h show ?thesis
    by simp
qed



text \<open>
  The claim as stated fails. At resolution 192, 120 BPM, offset 0 and tick 5 the
  conversion returns \<open>7505999378950826 / 2 ^ 59\<close>. That is not the number
  \<open>0 + 5 / 192 * (60 / 120)\<close>, and it is not what the formula of the claim gives in
  \<^verbatim>\<open>double\<close> arithmetic either, \<open>7505999378950827 / 2 ^ 59\<close>.
\<close>

theorem tempo_unico_nao_exato_counterexample:
  "resolucao chart_exemplo > 0
   \<and> mudancasTempo chart_exemplo = [(0, \<lparr> tick = 0, valorBruto = 120000 \<rparr>)]
   \<and> obterBPM \<lparr> tick = 0, valorBruto = 120000 \<rparr> = 120
   \<and> offset chart_exemplo = Finito 0
   \<and> ticksParaSegundos (CalculadoraTempo_init chart_exemplo) 5
       = Inr (Finito (7505999378950826 / 2 ^ 59))
   \<and> Finito (7505999378950826 / 2 ^ 59) \<noteq> Finito (0 + 5 / 192 * (60 / 120))
   \<and> soma64 (Finito 0) (para_double (arred (5 / 192) * arred (60 / 120)))
       = Finito (7505999378950827 / 2 ^ 59)
   \<and> Finito (7505999378950826 / 2 ^ 59) \<noteq> Finito (7505999378950827 / 2 ^ 59)"
proof -
  have h1: "resolucao chart_exemplo > 0"
    and h2: "mudancasTempo chart_exemplo = [(0, \<lparr> tick = 0, valorBruto = 120000 \<rparr>)]"
    and h3: "offset chart_exemplo = Finito 0"
    by (simp_all add: chart_exemplo_def DadosChart_inicial_def)
  have bpm: "obterBPM \<lparr> tick = 0, valorBruto = 120000 \<rparr> = 120"
    by code_simp
  have r: "ticksParaSegundos (CalculadoraTempo_init chart_exemplo) 5
       = Inr (Finito (7505999378950826 / 2 ^ 59))"
    by code_simp
  have f: "soma64 (Finito 0) (para_double (arred (5 / 192) * arred (60 / 120)))
       = Finito (7505999378950827 / 2 ^ 59)"
    by code_simp
  have n1: "Finito (7505999378950826 / 2 ^ 59) \<noteq> Finito (0 + 5 / 192 * (60 / 120))"
    by simp
  have n2: "Finito (7505999378950826 / 2 ^ 59) \<noteq> Finito (7505999378950827 / 2 ^ 59)"
    by simp
  from h1 h2 bpm h3 r f n1 n2 show ?thesis by (intro conjI)
qed




text \<open>
  The claim as stated fails. The file with the line \<^verbatim>\<open>Offset = nan\<close> and one tempo event
  parses to a chart of resolution 192; every conversion of that chart returns \<open>NaN\<close>,
  and \<open>NaN <= NaN\<close> is false.
\<close>

theorem offset_nan_nao_monotono_counterexample:
  "fazerParsingChart ''.'' (Some arquivo_offset_nan) = Inr (Some chart_do_arquivo_offset_nan)
   \<and> resolucao chart_do_arquivo_offset_nan > 0
   \<and> mudancasTempo chart_do_arquivo_offset_nan \<noteq> []
   \<and> ticksParaSegundos (CalculadoraTempo_init chart_do_arquivo_offset_nan) 0 = Inr NaN
   \<and> ticksParaSegundos (CalculadoraTempo_init chart_do_arquivo_offset_nan) 192 = Inr NaN
   \<and> \<not> le64 NaN NaN"
proof -
  have h2: "resolucao chart_do_arquivo_offset_nan > 0"
    and h3: "mudancasTempo chart_do_arquivo_offset_nan \<noteq> []"
    by (simp_all add: chart_do_arquivo_offset_nan_def DadosChart_inicial_def)
  have z: "ticksParaSegundos (CalculadoraTempo_init chart_do_arquivo_offset_nan) 0 = Inr NaN"
    by code_simp
  have r: "ticksParaSegundos (CalculadoraTempo_init chart_do_arquivo_offset_nan) 192 = Inr NaN"
    by code_simp
  have n: "\<not> le64 NaN NaN" by simp
  from parsing_arquivo_offset_nan [of "''.''"] h2 h3 z r n show ?thesis by (intro conjI)
qed

text \<open>
  Claim C8. When the tempo map is empty or its first event is not at tick 0, the
  constructor puts the event \<open>(tick 0, 120000)\<close> in front of the chart's events; tick 0
  then converts to the offset, and every tick from 0 up to the chart's first event
  (up to the largest \<^verbatim>\<open>int\<close> when there is none) is converted at 120 BPM, that is with
  \<open>500000\<close> microseconds per beat, by the rounded operations of the loop.
\<close>

theorem evento_inicial_sintetizado:
  assumes "mudancasTempo chart = []
           \<or> tick (hd (sort_key tick (map snd (mudancasTempo chart)))) \<noteq> 0"
  shows "mudancasTempoOrdenadas (CalculadoraTempo_init chart)
           = \<lparr> tick = 0, valorBruto = 120000 \<rparr> # sort_key tick (map snd (mudancasTempo chart))
       \<and> ticksParaSegundos (CalculadoraTempo_init chart) 0 = Inr (offset chart)
       \<and> (resolucao chart \<noteq> 0 \<and> 0 \<le> t
            \<and> t \<le> (case sort_key tick (map snd (mudancasTempo chart)) of
                       [] \<Rightarrow> INT_MAX | primeiro # _ \<Rightarrow> tick primeiro)
          \<longrightarrow> ticksParaSegundos (CalculadoraTempo_init chart) t
                = Inr (soma64
                         (Finito (arred (real_of_int t
                            * arred (arred (500000 / real_of_int (resolucao chart)) / 1000000))))
                         (offset chart)))"
proof -
  let ?vs = "sort_key tick (map snd (mudancasTempo chart))"
  let ?ev = "\<lparr> tick = 0, valorBruto = 120000 \<rparr>"
  have vec: "mudancasTempoOrdenadas (CalculadoraTempo_init chart) = ?ev # ?vs"
    using assms by (auto simp: CalculadoraTempo_init_def Let_def)
  have zero: "ticksParaSegundos (CalculadoraTempo_init chart) 0 = Inr (offset chart)"
    unfolding ticksParaSegundos_def vec init_referencia by (rule laco_tick_zero)
  have rate: "ticksParaSegundos (CalculadoraTempo_init chart) t
        = Inr (soma64
                 (Finito (arred (real_of_int t
                    * arred (arred (500000 / real_of_int (resolucao chart)) / 1000000))))
                 (offset chart))"
    if "resolucao chart \<noteq> 0" "0 \<le> t"
      "t \<le> (case ?vs of [] \<Rightarrow> INT_MAX | primeiro # _ \<Rightarrow> tick primeiro)"
  proof -
    have "ticksParaSegundos (CalculadoraTempo_init chart) t =
        Inr (soma64 (Finito (arred (0 + duracao chart ?ev (t - 0)))) (offset chart))"
      unfolding ticksParaSegundos_def vec init_referencia
      using that by (intro laco_para) simp_all
    then show ?thesis by (simp add: duracao_def segundosPorTick_def mpb_120)
  qed
  from vec zero rate show ?thesis by blast
qed

theorem evento_inicial_sintetizado_witness:
  "tick (hd (sort_key tick (map snd (mudancasTempo chart_sem_tick_zero)))) = 384
   \<and> mudancasTempoOrdenadas (CalculadoraTempo_init chart_sem_tick_zero)
       = [\<lparr> tick = 0, valorBruto = 120000 \<rparr>, \<lparr> tick = 384, valorBruto = 150000 \<rparr>]
   \<and> ticksParaSegundos (CalculadoraTempo_init chart_sem_tick_zero) 0 = Inr (Finito (1 / 4))
   \<and> ticksParaSegundos (CalculadoraTempo_init chart_sem_tick_zero) 384 = Inr (Finito (5 / 4))"
proof -
  have m: "sort_key tick (map snd (mudancasTempo chart_sem_tick_zero))
      = [\<lparr> tick = 384, valorBruto = 150000 \<rparr>]"
    by (simp add: chart_sem_tick_zero_def DadosChart_inicial_def)
  have h: "mudancasTempo chart_sem_tick_zero = []
      \<or> tick (hd (sort_key tick (map snd (mudancasTempo chart_sem_tick_zero)))) \<noteq> 0"
    by (simp add: m)
  have o: "offset chart_sem_tick_zero = Finito (1 / 4)"
    and r: "resolucao chart_sem_tick_zero = 192"
    by (simp_all add: chart_sem_tick_zero_def DadosChart_inicial_def)
  note t = evento_inicial_sintetizado [OF h, of 384]
  have pre: "resolucao chart_sem_tick_zero \<noteq> 0 \<and> (0::int) \<le> 384
      \<and> 384 \<le> (case sort_key tick (map snd (mudancasTempo chart_sem_tick_zero)) of
                   [] \<Rightarrow> INT_MAX | primeiro # _ \<Rightarrow> tick primeiro)"
    by (simp add: m r)
  from t pre have c3: "ticksParaSegundos (CalculadoraTempo_init chart_sem_tick_zero) 384
      = Inr (soma64
               (Finito (arred (real_of_int 384
                  * arred (arred (500000 / real_of_int (resolucao chart_sem_tick_zero))
                           / 1000000))))
               (offset chart_sem_tick_zero))"
    by blast
  have e: "Inr (soma64
               (Finito (arred (real_of_int 384
                  * arred (arred (500000 / real_of_int (resolucao chart_sem_tick_zero))
                           / 1000000))))
               (offset chart_sem_tick_zero)) = (Inr (Finito (5 / 4)) :: erro + double)"
    by code_simp
  from c3 e have v: "ticksParaSegundos (CalculadoraTempo_init chart_sem_tick_zero) 384
      = Inr (Finito (5 / 4))"
    by (rule trans)
  from t have c1: "mudancasTempoOrdenadas (CalculadoraTempo_init chart_sem_tick_zero)
      = \<lparr> tick = 0, valorBruto = 120000 \<rparr>
          # sort_key tick (map snd (mudancasTempo chart_sem_tick_zero))"
    and c2: "ticksParaSegundos (CalculadoraTempo_init chart_sem_tick_zero) 0
      = Inr (offset chart_sem_tick_zero)"
    by blast+
  from c1 c2 v show ?thesis by (simp add: m o)
qed

section \<open>Claims on the parser\<close>




text \<open>
  Claim C6, as the code has it. In a file that parses, the first line of section
  SyncTrack that gives a tempo event for a tick decides the event stored at that tick,
  whatever lines follow, and the tempo map holds one event at that tick; likewise for
  the time signatures. A later line with the same tick changes nothing.
\<close>

theorem primeira_linha_do_tick_vence:
  assumes "fazerParsingChart ponto arquivo = Inr (Some d)"
    and "linhasDoArquivo arquivo = antes @ par # depois"
  shows "(evento_tempo_da_linha par = Some ev
          \<and> (\<forall>p \<in> set antes. \<forall>e. evento_tempo_da_linha p = Some e \<longrightarrow> tick e \<noteq> tick ev)
          \<longrightarrow> map_of (mudancasTempo d) (tick ev) = Some ev
              \<and> length (filter (\<lambda>q. fst q = tick ev) (mudancasTempo d)) = 1)
       \<and> (assinatura_da_linha par = Some a
          \<and> (\<forall>p \<in> set antes. \<forall>b. assinatura_da_linha p = Some b
                 \<longrightarrow> tickAssinatura b \<noteq> tickAssinatura a)
          \<longrightarrow> map_of (assinaturasTempo d) (tickAssinatura a) = Some a
              \<and> length (filter (\<lambda>q. fst q = tickAssinatura a) (assinaturasTempo d)) = 1)"
proof -
  have vazio: "mapa_ordenado ([] :: (int \<times> 'v) list)" "map_of ([] :: (int \<times> 'v) list) k = None"
    for k by (simp_all add: mapa_ordenado_def)
  have mt: "mudancasTempo d
      = aplicar_linhas evento_tempo_da_linha tick [] (antes @ par # depois)"
    and ma: "assinaturasTempo d
      = aplicar_linhas assinatura_da_linha tickAssinatura [] (antes @ par # depois)"
    using parsing_mapas [OF assms(1)] assms(2) by simp_all
  have ot: "mapa_ordenado (mudancasTempo d)" and oa: "mapa_ordenado (assinaturasTempo d)"
    unfolding mt ma by (rule aplicar_linhas_ordenado, rule vazio(1))+
  have tempo: "map_of (mudancasTempo d) (tick ev) = Some ev
        \<and> length (filter (\<lambda>q. fst q = tick ev) (mudancasTempo d)) = 1"
    if "evento_tempo_da_linha par = Some ev"
      "\<forall>p \<in> set antes. \<forall>e. evento_tempo_da_linha p = Some e \<longrightarrow> tick e \<noteq> tick ev"
  proof -
    have "map_of (mudancasTempo d) (tick ev) = Some ev"
      unfolding mt using vazio that(2,1) by (rule primeiro_vence) simp
    with ot show ?thesis by (simp add: mapa_ordenado_unico)
  qed
  have assinatura: "map_of (assinaturasTempo d) (tickAssinatura a) = Some a
        \<and> length (filter (\<lambda>q. fst q = tickAssinatura a) (assinaturasTempo d)) = 1"
    if "assinatura_da_linha par = Some a"
      "\<forall>p \<in> set antes. \<forall>b. assinatura_da_linha p = Some b
          \<longrightarrow> tickAssinatura b \<noteq> tickAssinatura a"
  proof -
    have "map_of (assinaturasTempo d) (tickAssinatura a) = Some a"
      unfolding ma using vazio that(2,1) by (rule primeiro_vence) simp
    with oa show ?thesis by (simp add: mapa_ordenado_unico)
  qed
  from tempo assinatura show ?thesis by blast
qed

theorem primeira_linha_do_tick_vence_witness:
  "linhasDoArquivo (Some arquivo_tempo_duplicado)
     = [] @ (''SyncTrack'', ''0 = B 120000'')
          # [(''SyncTrack'', ''0 = TS 4''), (''SyncTrack'', ''0 = B 150000''),
             (''SyncTrack'', ''0 = TS 3 8'')]
   \<and> evento_tempo_da_linha (''SyncTrack'', ''0 = B 120000'')
       = Some \<lparr> tick = 0, valorBruto = 120000 \<rparr>
   \<and> evento_tempo_da_linha (''SyncTrack'', ''0 = B 150000'')
       = Some \<lparr> tick = 0, valorBruto = 150000 \<rparr>
   \<and> assinatura_da_linha (''SyncTrack'', ''0 = B 120000'') = None
   \<and> assinatura_da_linha (''SyncTrack'', ''0 = TS 4'')
       = Some \<lparr> tickAssinatura = 0, numerador = 4, denominador = 4 \<rparr>
   \<and> assinatura_da_linha (''SyncTrack'', ''0 = TS 3 8'')
       = Some \<lparr> tickAssinatura = 0, numerador = 3, denominador = 8 \<rparr>
   \<and> (\<exists>d. fazerParsingChart ''.'' (Some arquivo_tempo_duplicado) = Inr (Some d)
          \<and> map_of (mudancasTempo d) 0 = Some \<lparr> tick = 0, valorBruto = 120000 \<rparr>
          \<and> length (filter (\<lambda>q. fst q = 0) (mudancasTempo d)) = 1
          \<and> map_of (assinaturasTempo d) 0
              = Some \<lparr> tickAssinatura = 0, numerador = 4, denominador = 4 \<rparr>
          \<and> length (filter (\<lambda>q. fst q = 0) (assinaturasTempo d)) = 1)"
proof -
  let ?d = "DadosChart_inicial
       \<lparr> mudancasTempo := [(0, \<lparr> tick = 0, valorBruto = 120000 \<rparr>)],
         assinaturasTempo := [(0, \<lparr> tickAssinatura = 0, numerador = 4, denominador = 4 \<rparr>)] \<rparr>"
  have l1: "linhasDoArquivo (Some arquivo_tempo_duplicado)
     = [] @ (''SyncTrack'', ''0 = B 120000'')
          # [(''SyncTrack'', ''0 = TS 4''), (''SyncTrack'', ''0 = B 150000''),
             (''SyncTrack'', ''0 = TS 3 8'')]"
    by (simp add: linhas_arquivo_tempo_duplicado)
  have l2: "linhasDoArquivo (Some arquivo_tempo_duplicado)
     = [(''SyncTrack'', ''0 = B 120000'')] @ (''SyncTrack'', ''0 = TS 4'')
          # [(''SyncTrack'', ''0 = B 150000''), (''SyncTrack'', ''0 = TS 3 8'')]"
    by (simp add: linhas_arquivo_tempo_duplicado)
  note e = eventos_arquivo_tempo_duplicado
  note pa = parsing_arquivo_tempo_duplicado [of "''.''"]
  from primeira_linha_do_tick_vence [OF pa l1,
      of "\<lparr> tick = 0, valorBruto = 120000 \<rparr>"] e(1)
  have t: "map_of (mudancasTempo ?d) 0 = Some \<lparr> tick = 0, valorBruto = 120000 \<rparr>
     \<and> length (filter (\<lambda>q. fst q = 0) (mudancasTempo ?d)) = 1"
    by simp
  from primeira_linha_do_tick_vence [OF pa l2,
      of _ "\<lparr> tickAssinatura = 0, numerador = 4, denominador = 4 \<rparr>"] e(5,6)
  have a: "map_of (assinaturasTempo ?d) 0
       = Some \<lparr> tickAssinatura = 0, numerador = 4, denominador = 4 \<rparr>
     \<and> length (filter (\<lambda>q. fst q = 0) (assinaturasTempo ?d)) = 1"
    by simp
  from t a pa l1 e(1,2,5,6,7)
  show ?thesis by blast
qed

text \<open>
  The claim as stated fails: the file has the lines \<^verbatim>\<open>0 = B 120000\<close> and, later,
  \<^verbatim>\<open>0 = B 150000\<close> (and two time signatures of tick 0); the parsed chart holds the
  value 120000 of the earlier line at tick 0, and the earlier time signature.
\<close>

theorem linha_posterior_nao_sobrescreve_counterexample:
  "linhasDoArquivo (Some arquivo_tempo_duplicado) =
     [(''SyncTrack'', ''0 = B 120000''), (''SyncTrack'', ''0 = TS 4''),
      (''SyncTrack'', ''0 = B 150000''), (''SyncTrack'', ''0 = TS 3 8'')]
   \<and> fazerParsingChart ''.'' (Some arquivo_tempo_duplicado) =
     Inr (Some (DadosChart_inicial
       \<lparr> mudancasTempo := [(0, \<lparr> tick = 0, valorBruto = 120000 \<rparr>)],
         assinaturasTempo := [(0, \<lparr> tickAssinatura = 0, numerador = 4, denominador = 4 \<rparr>)] \<rparr>))"
  using linhas_arquivo_tempo_duplicado parsing_arquivo_tempo_duplicado [of "''.''"] by simp

text \<open>
  Claim C10. A file that can be read and is not empty, none of whose lines has a
  malformed numeric field and whose section Song has no line with the key Resolution:
  the parse returns a chart, and its resolution is 192.
\<close>

theorem resolucao_padrao:
  assumes "lerArquivoUtf8 arquivo \<noteq> []"
    and "list_all (\<lambda>p. campos_numericos_ok ponto (fst p) (snd p)
                       \<and> chave_da_linha p \<noteq> Some ''Resolution'')
           (linhasDoArquivo arquivo)"
  shows "\<exists>d. fazerParsingChart ponto arquivo = Inr (Some d) \<and> resolucao d = 192"
proof -
  from assms(2)
  have ok: "\<forall>p \<in> set (linhasDoArquivo arquivo). campos_numericos_ok ponto (fst p) (snd p)"
    and sem: "\<forall>p \<in> set (linhasDoArquivo arquivo). chave_da_linha p \<noteq> Some ''Resolution''"
    by (simp_all add: list_all_iff)
  from ok obtain d0
    where d0: "processarPares ponto DadosChart_inicial (linhasDoArquivo arquivo) = Inr d0"
    using pares_ok by blast
  from d0 sem have "resolucao d0 = resolucao DadosChart_inicial"
    by (rule pares_resolucao)
  then have "resolucao (d0 \<lparr> notas := sort_key tickNota (notas d0) \<rparr>) = 192"
    by (simp add: DadosChart_inicial_def)
  moreover have "fazerParsingChart ponto arquivo
      = Inr (Some (d0 \<lparr> notas := sort_key tickNota (notas d0) \<rparr>))"
    using assms(1) d0 by (simp add: parsing_pares)
  ultimately show ?thesis by blast
qed

theorem resolucao_padrao_witness:
  "lerArquivoUtf8 (Some arquivo_exemplo) \<noteq> []
   \<and> list_all (\<lambda>p. campos_numericos_ok ''.'' (fst p) (snd p)
                   \<and> chave_da_linha p \<noteq> Some ''Resolution'')
        (linhasDoArquivo (Some arquivo_exemplo))
   \<and> (\<exists>d. fazerParsingChart ''.'' (Some arquivo_exemplo) = Inr (Some d) \<and> resolucao d = 192)"
proof -
  have h1: "lerArquivoUtf8 (Some arquivo_exemplo) \<noteq> []"
    by (simp add: lerArquivoUtf8_def arquivo_exemplo_def)
  note h2 = campos_arquivo_exemplo [of "''.''"]
  from resolucao_padrao [OF h1 h2] h1 h2
  show ?thesis by (intro conjI)
qed

section \<open>Properties of and claims on the gameplay engine\<close>

lemmas constantes_defs = LARGURA_JANELA_def ALTURA_JANELA_def LARGURA_PAINEL_CENTRAL_def
  LARGURA_BRASTEADO_def NUMERO_PISTAS_def ALTURA_NOTA_def Y_ZONA_ACERTO_def
  ALTURA_ZONA_ACERTO_def VELOCIDADE_QUEDA_NOTA_PPS_def TOLERANCIA_ACERTO_MS_def
  INTERVALO_SPAWN_PARTICULA_SUSTAIN_def

lemmas jogo_defs = atualizarJogador_def atualizarLogicaJogador_def atualizarLogicaNota_def
  atualizarVisibilidadeNota_def verificarNotaPerdida_def atualizarSustainNota_def
  processarTeclaPressJogador_def verificarAcertoNota_def verificarAcertoUmaNota_def
  notaAcertavel_def lerPistaPermite_def adicionarPontuacao_def jogador1_def Jogador_init_def
  Nota_init_def nota_curta_exemplo_def nota_longa_exemplo_def

subsection \<open>Sustain scoring\<close>

text \<open>
  The sustain update never completes a note and never pays the 20 points: when the
  music time is past the end of the sustain, the note is outside its period, so
  \<^verbatim>\<open>sustainAtivo\<close> has just been cleared when the completion test reads it.
\<close>

lemma sustainNota_nunca_completa:
  "sustainCompleto (snd (atualizarSustainNota j n t dt)) = sustainCompleto n"
  by (simp add: atualizarSustainNota_def Let_def)

lemma sustainNota_pontos:
  "pontuacao (fst (atualizarSustainNota j n t dt)) \<le> pontuacao j + 1"
  by (simp add: atualizarSustainNota_def Let_def adicionarPontuacao_def)

lemma sustain_nunca_completa:
  "map sustainCompleto (snd (atualizarSustainParaJogador j ns t dt)) = map sustainCompleto ns"
proof (induction ns arbitrary: j)
  case Nil
  show ?case by simp
next
  case (Cons n ns)
  show ?case
    using Cons.IH [of "fst (atualizarSustainNota j n t dt)"]
      sustainNota_nunca_completa [of j n t dt]
    by (simp add: split_beta Let_def)
qed

lemma sustain_pontos:
  "pontuacao (fst (atualizarSustainParaJogador j ns t dt)) \<le> pontuacao j + int (length ns)"
proof (induction ns arbitrary: j)
  case Nil
  show ?case by simp
next
  case (Cons n ns)
  show ?case
    using Cons.IH [of "fst (atualizarSustainNota j n t dt)"] sustainNota_pontos [of j n t dt]
    by (simp add: split_beta Let_def)
qed

text \<open>
  Claim C3, on the code. Player 1 hits the sustain note of lane 0 (1 s to 1.5 s) at 1 s
  and holds the key. The ticks at 1.2 s and 1.5 s find the sustain active and pay one
  point each; at the tick of 1.506 s, the first past the end of the sustain, the note
  is not marked complete and nothing is paid: the score stays 5 + 1 + 1.
\<close>

theorem sustain_segurado_nao_completa:
  "map acertada (snd sustain_s0) = [True] \<and> pontuacao (fst sustain_s0) = 5
   \<and> Key_A \<in> teclasPresionadas (fst sustain_s3)
   \<and> map sustainAtivo (snd sustain_s2) = [True] \<and> pontuacao (fst sustain_s2) = 7
   \<and> map sustainAtivo (snd sustain_s3) = [False]
   \<and> map sustainCompleto (snd sustain_s3) = [False]
   \<and> pontuacao (fst sustain_s3) = 7"
  by (simp add: sustain_s3_def sustain_s2_def sustain_s1_def sustain_s0_def jogo_defs
      constantes_defs Let_def)

subsection \<open>Key presses\<close>

lemma acerto_laco_notas:
  "snd (verificarAcertoNota_laco j ns p t) =
     map (\<lambda>n. if notaAcertavel n p t then n \<lparr> acertada := True \<rparr> else n) ns"
  by (induction ns arbitrary: j) (simp_all add: split_beta Let_def verificarAcertoUmaNota_def)

lemma acerto_laco_jogador:
  "\<exists>pts. fst (verificarAcertoNota_laco j ns p t) = j \<lparr> pontuacao := pts \<rparr>"
proof (induction ns arbitrary: j)
  case Nil
  have "j = j \<lparr> pontuacao := pontuacao j \<rparr>" by simp
  then show ?case by (metis fst_conv verificarAcertoNota_laco.simps(1))
next
  case (Cons n ns)
  obtain pts where "fst (verificarAcertoNota_laco (fst (verificarAcertoUmaNota j n p t)) ns p t)
     = (fst (verificarAcertoUmaNota j n p t)) \<lparr> pontuacao := pts \<rparr>"
    using Cons.IH by blast
  moreover have "\<exists>q. fst (verificarAcertoUmaNota j n p t) = j \<lparr> pontuacao := q \<rparr>"
    by (cases "notaAcertavel n p t")
      (auto simp: verificarAcertoUmaNota_def adicionarPontuacao_def intro: exI [of _ "pontuacao j"])
  ultimately show ?case
    by (auto simp: split_beta Let_def)
qed

text \<open>
  A key press never clears the short-note flag of a lane: \<^verbatim>\<open>verificarAcertoNota\<close>
  returns \<^verbatim>\<open>false\<close> whatever it hit, and the flag is cleared only on \<^verbatim>\<open>true\<close>.
\<close>

lemma press_nao_desarma:
  assumes "pistaPermiteAcertoNotaCurta j p = Some True"
  shows "pistaPermiteAcertoNotaCurta (fst (processarTeclaPressJogador k t j ns)) p = Some True"
proof (cases "map_of (mapeamentoTeclaPista j) k")
  case None
  with assms show ?thesis by (simp add: processarTeclaPressJogador_def)
next
  case (Some q)
  let ?jA = "j \<lparr> teclasPresionadas := insert k (teclasPresionadas j) \<rparr>"
  let ?m = "snd (lerPistaPermite (pistaPermiteAcertoNotaCurta ?jA) q)"
  have m: "?m p = Some True"
    using assms by (auto simp: lerPistaPermite_def split: option.splits)
  obtain pts where "fst (verificarAcertoNota_laco (?jA \<lparr> pistaPermiteAcertoNotaCurta := ?m \<rparr>) ns q t)
      = (?jA \<lparr> pistaPermiteAcertoNotaCurta := ?m \<rparr>) \<lparr> pontuacao := pts \<rparr>"
    using acerto_laco_jogador by blast
  with Some m show ?thesis
    by (simp add: processarTeclaPressJogador_def Let_def split_beta verificarAcertoNota_def)
qed

lemma release_rearma:
  "map_of (mapeamentoTeclaPista j) k = Some p \<Longrightarrow>
   pistaPermiteAcertoNotaCurta (processarTeclaReleaseJogador k j) p = Some True
   \<and> k \<notin> teclasPresionadas (processarTeclaReleaseJogador k j)"
  by (simp add: processarTeclaReleaseJogador_def)

lemma press_notas:
  assumes "map_of (mapeamentoTeclaPista j) k = Some p"
    and "pistaPermiteAcertoNotaCurta j p = Some True"
  shows "snd (processarTeclaPressJogador k t j ns) =
     map (\<lambda>n. if notaAcertavel n p t then n \<lparr> acertada := True \<rparr> else n) ns"
  using assms
  by (simp add: processarTeclaPressJogador_def Let_def split_beta verificarAcertoNota_def
      lerPistaPermite_def acerto_laco_notas)

text \<open>
  Claim C7, on the code. Player 1 presses A at 1 s and hits the short note of lane 0:
  the note is hit and 10 points are paid, and the short-note flag of lane 0 still
  allows hits. With the key still down, a second key-press event of A at 1.2 s hits the
  next short note of the lane.
\<close>

theorem acerto_curto_nao_desarma:
  "map acertada (snd curta_s0) = [True, False] \<and> pontuacao (fst curta_s0) = 10
   \<and> Key_A \<in> teclasPresionadas (fst curta_s0)
   \<and> pistaPermiteAcertoNotaCurta (fst curta_s0) 0 = Some True
   \<and> map acertada (snd curta_s1) = [True, True] \<and> pontuacao (fst curta_s1) = 20"
  by (simp add: curta_s1_def curta_s0_def jogo_defs constantes_defs Let_def)

text \<open>
  Claim C4, as the code has it. A key mapped to a lane whose short-note flag allows
  hits is pressed at music time \<open>t\<close>; a note of that lane is on screen, not hit and not
  missed. When its timestamp is 0.200001 s from \<open>t\<close>, the press does not hit it. When
  its timestamp is 0.199999 s from \<open>t\<close>, the press hits it exactly when its screen
  position is inside the band of the hit zone, from \<open>Y_ZONA_ACERTO - ALTURA_NOTA\<close> to
  \<open>Y_ZONA_ACERTO + ALTURA_ZONA_ACERTO + ALTURA_NOTA\<close>.
\<close>

theorem janela_de_acerto:
  assumes "map_of (mapeamentoTeclaPista j) k = Some p"
    and "pistaPermiteAcertoNotaCurta j p = Some True"
    and "i < length ns"
    and "pista (ns ! i) = p" and "naTela (ns ! i)"
    and "\<not> acertada (ns ! i)" and "\<not> perdida (ns ! i)"
  shows "(\<bar>timestampSec (ns ! i) - t\<bar> = 200001 / 1000000
            \<longrightarrow> \<not> acertada (snd (processarTeclaPressJogador k t j ns) ! i))
       \<and> (\<bar>timestampSec (ns ! i) - t\<bar> = 199999 / 1000000
            \<longrightarrow> (acertada (snd (processarTeclaPressJogador k t j ns) ! i)
                  \<longleftrightarrow> real_of_int (Y_ZONA_ACERTO - ALTURA_NOTA) \<le> posicaoY (ns ! i)
                      \<and> posicaoY (ns ! i)
                          \<le> real_of_int (Y_ZONA_ACERTO + ALTURA_ZONA_ACERTO + ALTURA_NOTA)))"
  using assms
  by (simp add: press_notas [OF assms(1,2)] notaAcertavel_def TOLERANCIA_ACERTO_MS_def)

theorem janela_de_acerto_witness:
  "map_of (mapeamentoTeclaPista jogador1) Key_A = Some 0
   \<and> pistaPermiteAcertoNotaCurta jogador1 0 = Some True
   \<and> 0 < length janela_notas_tarde
   \<and> pista (janela_notas_tarde ! 0) = 0 \<and> naTela (janela_notas_tarde ! 0)
   \<and> \<not> acertada (janela_notas_tarde ! 0) \<and> \<not> perdida (janela_notas_tarde ! 0)
   \<and> posicaoY (janela_notas_tarde ! 0) = 1180
   \<and> \<bar>timestampSec (janela_notas_tarde ! 0) - 1199999 / 1000000\<bar> = 199999 / 1000000
   \<and> acertada (snd (processarTeclaPressJogador Key_A (1199999 / 1000000) jogador1
                     janela_notas_tarde) ! 0)
   \<and> \<bar>timestampSec (janela_notas_tarde ! 0) - 1200001 / 1000000\<bar> = 200001 / 1000000
   \<and> \<not> acertada (snd (processarTeclaPressJogador Key_A (1200001 / 1000000) jogador1
                       janela_notas_tarde) ! 0)"
proof -
  have h1: "map_of (mapeamentoTeclaPista jogador1) Key_A = Some 0"
    and h2: "pistaPermiteAcertoNotaCurta jogador1 0 = Some True"
    by (simp_all add: jogador1_def Jogador_init_def)
  have h3: "0 < length janela_notas_tarde"
    and h4: "pista (janela_notas_tarde ! 0) = 0" and h5: "naTela (janela_notas_tarde ! 0)"
    and h6: "\<not> acertada (janela_notas_tarde ! 0)" and h7: "\<not> perdida (janela_notas_tarde ! 0)"
    and y: "posicaoY (janela_notas_tarde ! 0) = 1180"
    and ts: "timestampSec (janela_notas_tarde ! 0) = 1"
    by (simp_all add: janela_notas_tarde_def jogo_defs constantes_defs Let_def)
  from janela_de_acerto [OF h1 h2 h3 h4 h5 h6 h7, of "1199999 / 1000000"]
    janela_de_acerto [OF h1 h2 h3 h4 h5 h6 h7, of "1200001 / 1000000"]
    h1 h2 h3 h4 h5 h6 h7 y ts
  show ?thesis by (simp add: constantes_defs)
qed

text \<open>
  The claim as stated fails: the short note at 1 s is on screen, not hit and not
  missed when the note logic has run at 0.800001 s; A is pressed at that time,
  0.199999 s before the note's timestamp, and the note is not hit: at 940.0008 it is
  above the band of the hit zone, which starts at 1055.
\<close>

theorem janela_cedo_counterexample:
  "map_of (mapeamentoTeclaPista jogador1) Key_A = Some 0
   \<and> pista (janela_notas_cedo ! 0) = 0 \<and> naTela (janela_notas_cedo ! 0)
   \<and> \<not> acertada (janela_notas_cedo ! 0) \<and> \<not> perdida (janela_notas_cedo ! 0)
   \<and> \<bar>timestampSec (janela_notas_cedo ! 0) - 800001 / 1000000\<bar> = 199999 / 1000000
   \<and> posicaoY (janela_notas_cedo ! 0) = 9400008 / 10000
   \<and> \<not> acertada (snd janela_cedo ! 0)"
  by (simp add: janela_cedo_def janela_notas_cedo_def jogo_defs constantes_defs Let_def)

end
